theory Spec2Isabelle
  imports Complex_Main
begin

section \<open>Characters and the C library's classification functions\<close>

text \<open>
  The source works on \<^verbatim>\<open>std::string\<close>, a sequence of 8-bit \<^verbatim>\<open>char\<close>s; here a
  \<^typ>\<open>string\<close>, a list of 8-bit \<^typ>\<open>char\<close>s. \<^verbatim>\<open>'\0'\<close> is the character with code 0.
\<close>

definition NUL :: char where
  "NUL = CHR 0x00"

text \<open>
  \<^verbatim>\<open>isdigit\<close>, \<^verbatim>\<open>isalpha\<close>, \<^verbatim>\<open>isalnum\<close> and \<^verbatim>\<open>isspace\<close> of \<^verbatim>\<open><ctype.h>\<close> in the
  "C" locale (the program never calls \<^verbatim>\<open>setlocale\<close>). A character with code above 127 is in
  none of the classes.
\<close>

definition isdigit :: "char \<Rightarrow> bool" where
  "isdigit c = (48 \<le> (of_char c :: nat) \<and> (of_char c :: nat) \<le> 57)"

definition isalpha :: "char \<Rightarrow> bool" where
  "isalpha c = ((65 \<le> (of_char c :: nat) \<and> (of_char c :: nat) \<le> 90) \<or>
                (97 \<le> (of_char c :: nat) \<and> (of_char c :: nat) \<le> 122))"

definition isalnum :: "char \<Rightarrow> bool" where
  "isalnum c = (isalpha c \<or> isdigit c)"

definition isspace :: "char \<Rightarrow> bool" where
  "isspace c = ((of_char c :: nat) = 32 \<or> (9 \<le> (of_char c :: nat) \<and> (of_char c :: nat) \<le> 13))"


section \<open>Floating point arithmetic and \<^verbatim>\<open>std::stod\<close>\<close>

text \<open>
  The values of the program are \<^verbatim>\<open>double\<close>s. Their arithmetic is the machine's and the C
  library's, not this program's, so the type \<open>'v\<close> of values and its operations are a
  parameter of the model: \<open>d_add\<close>, \<open>d_sub\<close>, \<open>d_mul\<close>, \<open>d_div\<close> are \<^verbatim>\<open>+ - * /\<close> on doubles,
  \<open>d_of_int\<close> the conversion of an integer literal, \<open>d_exp\<close>, \<open>d_atan\<close>, \<open>d_cos\<close>, \<open>d_sin\<close>,
  \<open>d_sqrt\<close> the functions of \<^verbatim>\<open><math.h>\<close>, and \<open>d_strtod\<close> the value \<^verbatim>\<open>strtod\<close> gives to a
  numeral, \<open>None\<close> when it sets \<^verbatim>\<open>errno\<close> to \<^verbatim>\<open>ERANGE\<close>.
\<close>

record 'v double_ops =
  d_add :: "'v \<Rightarrow> 'v \<Rightarrow> 'v"
  d_sub :: "'v \<Rightarrow> 'v \<Rightarrow> 'v"
  d_mul :: "'v \<Rightarrow> 'v \<Rightarrow> 'v"
  d_div :: "'v \<Rightarrow> 'v \<Rightarrow> 'v"
  d_of_int :: "int \<Rightarrow> 'v"
  d_exp :: "'v \<Rightarrow> 'v"
  d_atan :: "'v \<Rightarrow> 'v"
  d_cos :: "'v \<Rightarrow> 'v"
  d_sin :: "'v \<Rightarrow> 'v"
  d_sqrt :: "'v \<Rightarrow> 'v"
  d_strtod :: "string \<Rightarrow> 'v option"

datatype stod_exception = invalid_argument | out_of_range

text \<open>
  Modelled from the spec: \<^verbatim>\<open>std::stod\<close> is the C++ library's, not under src/. The spec has
  the conversion fail on a numeral whose two digit runs (before and after the \<^verbatim>\<open>.\<close>) are
  both empty, such as \<^verbatim>\<open>""\<close>, \<^verbatim>\<open>"+"\<close>, \<^verbatim>\<open>"-"\<close>, \<^verbatim>\<open>"."\<close>, \<^verbatim>\<open>"-."\<close>; this is \<^verbatim>\<open>strtod\<close>
  performing no conversion, on which \<^verbatim>\<open>stod\<close> throws \<^verbatim>\<open>std::invalid_argument\<close>. The
  strings \<open>GetConstant\<close> passes hold signs, digits, \<^verbatim>\<open>.\<close> and \<^verbatim>\<open>e\<close>/\<^verbatim>\<open>E\<close> only, so after
  the optional sign a conversion is performed exactly when a digit comes first, or a
  \<^verbatim>\<open>.\<close> and then a digit.
\<close>

fun has_mantissa_digit :: "string \<Rightarrow> bool" where
  "has_mantissa_digit [] = False"
| "has_mantissa_digit [c] = isdigit c"
| "has_mantissa_digit (c # d # s) = (isdigit c \<or> (c = CHR ''.'' \<and> isdigit d))"

definition strip_sign :: "string \<Rightarrow> string" where
  "strip_sign s = (case s of [] \<Rightarrow> []
                   | c # t \<Rightarrow> if c = CHR ''+'' \<or> c = CHR ''-'' then t else s)"

definition stod :: "'v double_ops \<Rightarrow> string \<Rightarrow> stod_exception + 'v" where
  "stod F s =
     (if \<not> has_mantissa_digit (strip_sign s) then Inl invalid_argument
      else case d_strtod F s of None \<Rightarrow> Inl out_of_range | Some v \<Rightarrow> Inr v)"


section \<open>The class \<^verbatim>\<open>Calc\<close>\<close>

text \<open>
  An exception leaving \<open>Evaluate\<close>: a \<^verbatim>\<open>Calc::ParseError\<close> with its message and its
  \<^verbatim>\<open>m_position\<close>, or the \<^verbatim>\<open>std::out_of_range\<close> of \<^verbatim>\<open>stod\<close>, which \<open>GetConstant\<close> does
  not catch.
\<close>

datatype exception = ParseError string nat | std_out_of_range

text \<open>
  The object's fields. \<open>m_currentPosition\<close> is a \<^verbatim>\<open>size_t\<close>; it never exceeds the length
  of \<open>m_src\<close> when it starts below (proved further down), so a \<^typ>\<open>nat\<close> reads it
  without wrap-around.
\<close>

record 'v Calc =
  m_src :: string
  m_currentPosition :: nat
  m_constants :: "string \<Rightarrow> 'v option"
  m_functions :: "string \<Rightarrow> ('v \<Rightarrow> 'v) option"

text \<open>The constructor \<^verbatim>\<open>Calc::Calc(std::string const & src)\<close>.\<close>

definition Calc :: "'v double_ops \<Rightarrow> string \<Rightarrow> 'v Calc" where
  "Calc F src =
     \<lparr> m_src = src,
       m_currentPosition = 0,
       m_constants = [''e'' \<mapsto> d_exp F (d_of_int F 1),
                      ''pi'' \<mapsto> d_mul F (d_atan F (d_of_int F 1)) (d_of_int F 4)],
       m_functions = [''cos'' \<mapsto> d_cos F, ''sin'' \<mapsto> d_sin F, ''sqrt'' \<mapsto> d_sqrt F] \<rparr>"

text \<open>
  A member function that can throw returns the exception or its value, and the object as
  it is then. \<open>and_then\<close> sequences two such computations: an exception of the first
  leaves at once, with the object as it was when thrown.
\<close>

type_synonym ('v, 'a) result = "(exception + 'a) \<times> 'v Calc"

definition and_then :: "('v, 'a) result \<Rightarrow> ('a \<Rightarrow> 'v Calc \<Rightarrow> ('v, 'b) result) \<Rightarrow> ('v, 'b) result" where
  "and_then r k = (case r of (Inl e, c) \<Rightarrow> (Inl e, c) | (Inr v, c) \<Rightarrow> k v c)"

lemma and_then_cong [fundef_cong]:
  "r = r' \<Longrightarrow> (\<And>v c. r' = (Inr v, c) \<Longrightarrow> k v c = k' v c) \<Longrightarrow> and_then r k = and_then r' k'"
  by (auto simp: and_then_def split: prod.splits sum.splits)

subsection \<open>The cursor\<close>

definition PeekChar :: "'v Calc \<Rightarrow> char" where
  "PeekChar c =
     (if m_currentPosition c \<ge> length (m_src c) then NUL
      else m_src c ! m_currentPosition c)"

definition GetChar :: "'v Calc \<Rightarrow> char \<times> 'v Calc" where
  "GetChar c =
     (let result = PeekChar c
      in if result \<noteq> NUL
         then (result, c\<lparr>m_currentPosition := m_currentPosition c + 1\<rparr>)
         else (result, c))"

definition Consume :: "char \<Rightarrow> 'v Calc \<Rightarrow> ('v, unit) result" where
  "Consume ch c =
     (if PeekChar c \<noteq> ch
      then (Inl (ParseError (''Expected '' @ [CHR 0x27] @ [ch] @ [CHR 0x27] @ ''.'')
                            (m_currentPosition c)), c)
      else (Inr (), snd (GetChar c)))"

text \<open>The number of characters between the cursor and the end of the source.\<close>

definition remaining :: "'v Calc \<Rightarrow> nat" where
  "remaining c = length (m_src c) - m_currentPosition c"

lemma isspace_not_NUL: "isspace ch \<Longrightarrow> ch \<noteq> NUL"
  by (auto simp: isspace_def NUL_def)

lemma isdigit_not_NUL: "isdigit ch \<Longrightarrow> ch \<noteq> NUL"
  by (auto simp: isdigit_def NUL_def)

lemma isalnum_not_NUL: "isalnum ch \<Longrightarrow> ch \<noteq> NUL"
  by (auto simp: isalnum_def isalpha_def isdigit_def NUL_def)

lemma GetChar_remaining:
  "PeekChar c \<noteq> NUL \<Longrightarrow> remaining (snd (GetChar c)) < remaining c"
  by (auto simp: GetChar_def PeekChar_def remaining_def Let_def split: if_splits)

text \<open>\<^verbatim>\<open>while (isspace(PeekChar())) GetChar();\<close>\<close>

function SkipWhite :: "'v Calc \<Rightarrow> 'v Calc" where
  "SkipWhite c = (if isspace (PeekChar c) then SkipWhite (snd (GetChar c)) else c)"
  by pat_completeness auto

lemma SkipWhite_dom_total: "All SkipWhite_dom"
  by (relation "measure remaining") (auto simp: GetChar_remaining isspace_not_NUL)

termination SkipWhite
  using SkipWhite_dom_total by blast

declare SkipWhite.simps [simp del]

text \<open>
  The scanning statements of \<open>GetSymbol\<close> and \<open>GetConstant\<close> work on the local string
  and the object together, so they are modelled on the pair of both.

  \<^verbatim>\<open>s.push_back(GetChar());\<close>
\<close>

definition push_back_GetChar :: "string \<times> 'v Calc \<Rightarrow> string \<times> 'v Calc" where
  "push_back_GetChar sc = (fst sc @ [fst (GetChar (snd sc))], snd (GetChar (snd sc)))"

text \<open>\<^verbatim>\<open>while (isdigit(PeekChar())) s.push_back(GetChar());\<close>\<close>

function push_back_digits :: "string \<times> 'v Calc \<Rightarrow> string \<times> 'v Calc" where
  "push_back_digits sc =
     (if isdigit (PeekChar (snd sc)) then push_back_digits (push_back_GetChar sc) else sc)"
  by pat_completeness auto

lemma push_back_digits_dom_total: "All push_back_digits_dom"
  by (relation "measure (\<lambda>sc. remaining (snd sc))")
     (auto simp: push_back_GetChar_def GetChar_remaining isdigit_not_NUL)

termination push_back_digits
  using push_back_digits_dom_total by blast

declare push_back_digits.simps [simp del]

text \<open>\<^verbatim>\<open>while (isalnum(PeekChar())) symbol.push_back(GetChar());\<close>\<close>

function push_back_alnums :: "string \<times> 'v Calc \<Rightarrow> string \<times> 'v Calc" where
  "push_back_alnums sc =
     (if isalnum (PeekChar (snd sc)) then push_back_alnums (push_back_GetChar sc) else sc)"
  by pat_completeness auto

lemma push_back_alnums_dom_total: "All push_back_alnums_dom"
  by (relation "measure (\<lambda>sc. remaining (snd sc))")
     (auto simp: push_back_GetChar_def GetChar_remaining isalnum_not_NUL)

termination push_back_alnums
  using push_back_alnums_dom_total by blast

declare push_back_alnums.simps [simp del]

subsection \<open>Symbols and constants\<close>

definition GetSymbol :: "'v Calc \<Rightarrow> ('v, string) result" where
  "GetSymbol c =
     (let c1 = SkipWhite c
      in if \<not> isalpha (PeekChar c1)
         then (Inl (ParseError ''Expected alpha character at beginning of symbol.''
                               (m_currentPosition c1)), c1)
         else (Inr (fst (push_back_alnums ([], c1))), snd (push_back_alnums ([], c1))))"

definition IsFirstCharOfDouble :: "char \<Rightarrow> bool" where
  "IsFirstCharOfDouble c = (isdigit c \<or> c = CHR ''-'' \<or> c = CHR ''+'' \<or> c = CHR ''.'')"

text \<open>
  \<open>GetConstant\<close>, statement by statement. \<open>GetSign\<close> is
  \<^verbatim>\<open>if (PeekChar() == '+' || PeekChar() == '-') s.push_back(GetChar());\<close>, which the source
  has before the mantissa and again before the exponent. \<open>GetFraction\<close> is the optional
  \<^verbatim>\<open>.\<close> and the digits right of it. \<open>GetMantissa\<close> is the function up to the exponent,
  \<open>GetExponent\<close> the optional exponent, where the function can throw before the
  conversion, and \<open>ConvertConstant\<close> the \<^verbatim>\<open>try\<close> block around \<^verbatim>\<open>stod\<close>.
\<close>

definition GetSign :: "string \<times> 'v Calc \<Rightarrow> string \<times> 'v Calc" where
  "GetSign sc =
     (if PeekChar (snd sc) = CHR ''+'' \<or> PeekChar (snd sc) = CHR ''-''
      then push_back_GetChar sc else sc)"

definition GetFraction :: "string \<times> 'v Calc \<Rightarrow> string \<times> 'v Calc" where
  "GetFraction sc =
     (if PeekChar (snd sc) = CHR ''.'' then push_back_digits (push_back_GetChar sc) else sc)"

definition GetMantissa :: "'v Calc \<Rightarrow> string \<times> 'v Calc" where
  "GetMantissa c = GetFraction (push_back_digits (GetSign ([], c)))"

definition GetExponent :: "string \<times> 'v Calc \<Rightarrow> ('v, string) result" where
  "GetExponent sc =
     (if PeekChar (snd sc) = CHR ''e'' \<or> PeekChar (snd sc) = CHR ''E''
      then (let sc1 = GetSign (push_back_GetChar sc)
            in if \<not> isdigit (PeekChar (snd sc1))
               then (Inl (ParseError ''Expected exponent in floating point constant.''
                                     (m_currentPosition (snd sc1))), snd sc1)
               else (Inr (fst (push_back_digits sc1)), snd (push_back_digits sc1)))
      else (Inr (fst sc), snd sc))"

definition ConvertConstant :: "'v double_ops \<Rightarrow> string \<Rightarrow> 'v Calc \<Rightarrow> ('v, 'v) result" where
  "ConvertConstant F s c =
     (case stod F s of
        Inr v \<Rightarrow> (Inr v, c)
      | Inl invalid_argument \<Rightarrow> (Inl (ParseError ''Invalid float.'' (m_currentPosition c)), c)
      | Inl out_of_range \<Rightarrow> (Inl std_out_of_range, c))"

definition GetConstant :: "'v double_ops \<Rightarrow> 'v Calc \<Rightarrow> ('v, 'v) result" where
  "GetConstant F c = and_then (GetExponent (GetMantissa (SkipWhite c))) (ConvertConstant F)"

subsection \<open>How the functions below move the cursor\<close>

text \<open>
  \<open>cursor_moved c c'\<close>: the object \<open>c'\<close> is \<open>c\<close> with only \<open>m_currentPosition\<close> changed,
  the position has not decreased, and it has not gone past the end of the source unless it
  was there before.
\<close>

definition cursor_moved :: "'v Calc \<Rightarrow> 'v Calc \<Rightarrow> bool" where
  "cursor_moved c c' =
     (c' = c\<lparr>m_currentPosition := m_currentPosition c'\<rparr> \<and>
      m_currentPosition c \<le> m_currentPosition c' \<and>
      m_currentPosition c' \<le> max (m_currentPosition c) (length (m_src c)))"

lemma cursor_moved_refl: "cursor_moved c c"
  by (simp add: cursor_moved_def)

lemma cursor_moved_trans: "cursor_moved a b \<Longrightarrow> cursor_moved b c \<Longrightarrow> cursor_moved a c"
  unfolding cursor_moved_def
  by (cases a, cases b, cases c) auto

lemma cursor_moved_remaining: "cursor_moved c c' \<Longrightarrow> remaining c' \<le> remaining c"
  unfolding cursor_moved_def remaining_def
  by (cases c, cases c') auto

lemma GetChar_moved: "cursor_moved c (snd (GetChar c))"
  by (auto simp: cursor_moved_def GetChar_def PeekChar_def Let_def)

lemma SkipWhite_moved: "cursor_moved c (SkipWhite c)"
proof (induction c rule: SkipWhite.induct)
  case (1 c)
  show ?case
  proof (cases "isspace (PeekChar c)")
    case True
    then have "cursor_moved (snd (GetChar c)) (SkipWhite c)"
      using 1 by (simp add: SkipWhite.simps [of c])
    then show ?thesis
      using GetChar_moved cursor_moved_trans by blast
  next
    case False
    then show ?thesis
      by (simp add: SkipWhite.simps [of c] cursor_moved_refl)
  qed
qed

lemma push_back_GetChar_moved: "cursor_moved (snd sc) (snd (push_back_GetChar sc))"
  by (simp add: push_back_GetChar_def GetChar_moved)

lemma push_back_digits_moved: "cursor_moved (snd sc) (snd (push_back_digits sc))"
proof (induction sc rule: push_back_digits.induct)
  case (1 sc)
  show ?case
  proof (cases "isdigit (PeekChar (snd sc))")
    case True
    then have "cursor_moved (snd (push_back_GetChar sc)) (snd (push_back_digits sc))"
      using 1 by (simp add: push_back_digits.simps [of sc])
    then show ?thesis
      using push_back_GetChar_moved cursor_moved_trans by blast
  next
    case False
    then show ?thesis
      by (simp add: push_back_digits.simps [of sc] cursor_moved_refl)
  qed
qed

lemma push_back_alnums_moved: "cursor_moved (snd sc) (snd (push_back_alnums sc))"
proof (induction sc rule: push_back_alnums.induct)
  case (1 sc)
  show ?case
  proof (cases "isalnum (PeekChar (snd sc))")
    case True
    then have "cursor_moved (snd (push_back_GetChar sc)) (snd (push_back_alnums sc))"
      using 1 by (simp add: push_back_alnums.simps [of sc])
    then show ?thesis
      using push_back_GetChar_moved cursor_moved_trans by blast
  next
    case False
    then show ?thesis
      by (simp add: push_back_alnums.simps [of sc] cursor_moved_refl)
  qed
qed

lemma Consume_moved: "cursor_moved c (snd (Consume ch c))"
  by (simp add: Consume_def cursor_moved_refl GetChar_moved)

lemma and_then_moved:
  assumes "cursor_moved c (snd r)"
    and "\<And>v c1. r = (Inr v, c1) \<Longrightarrow> cursor_moved c1 (snd (k v c1))"
  shows "cursor_moved c (snd (and_then r k))"
proof (cases r)
  case (Pair x c1)
  show ?thesis
  proof (cases x)
    case (Inl e)
    with Pair assms(1) show ?thesis by (simp add: and_then_def)
  next
    case (Inr v)
    with Pair assms(2) have "cursor_moved c1 (snd (k v c1))" by simp
    moreover from Pair assms(1) have "cursor_moved c c1" by simp
    ultimately show ?thesis
      using Pair Inr by (auto simp: and_then_def intro: cursor_moved_trans)
  qed
qed

lemma GetSymbol_moved: "cursor_moved c (snd (GetSymbol c))"
  using SkipWhite_moved [of c] push_back_alnums_moved [of "([], SkipWhite c)"]
  by (auto simp: GetSymbol_def Let_def intro: cursor_moved_trans)

lemma GetSign_moved: "cursor_moved (snd sc) (snd (GetSign sc))"
  by (simp add: GetSign_def push_back_GetChar_moved cursor_moved_refl)

lemma GetFraction_moved: "cursor_moved (snd sc) (snd (GetFraction sc))"
  using push_back_GetChar_moved [of sc] push_back_digits_moved [of "push_back_GetChar sc"]
  by (auto simp: GetFraction_def cursor_moved_refl intro: cursor_moved_trans)

lemma GetMantissa_moved: "cursor_moved c (snd (GetMantissa c))"
proof -
  have "cursor_moved c (snd (GetSign ([], c)))"
    using GetSign_moved [of "([], c)"] by simp
  then have "cursor_moved c (snd (push_back_digits (GetSign ([], c))))"
    using push_back_digits_moved cursor_moved_trans by blast
  then show ?thesis
    unfolding GetMantissa_def using GetFraction_moved cursor_moved_trans by blast
qed

lemma GetExponent_moved: "cursor_moved (snd sc) (snd (GetExponent sc))"
proof -
  have "cursor_moved (snd sc) (snd (GetSign (push_back_GetChar sc)))"
    using push_back_GetChar_moved GetSign_moved cursor_moved_trans by blast
  moreover have "cursor_moved (snd sc) (snd (push_back_digits (GetSign (push_back_GetChar sc))))"
    using calculation push_back_digits_moved cursor_moved_trans by blast
  ultimately show ?thesis
    by (simp add: GetExponent_def Let_def cursor_moved_refl)
qed

lemma ConvertConstant_moved: "cursor_moved c (snd (ConvertConstant F s c))"
  by (simp add: ConvertConstant_def cursor_moved_refl
      split: sum.splits stod_exception.splits)

lemma GetConstant_moved: "cursor_moved c (snd (GetConstant F c))"
  unfolding GetConstant_def
proof (rule and_then_moved)
  show "cursor_moved c (snd (GetExponent (GetMantissa (SkipWhite c))))"
    using SkipWhite_moved GetMantissa_moved GetExponent_moved cursor_moved_trans by blast
qed (rule ConvertConstant_moved)

subsection \<open>The grammar\<close>

text \<open>
  \<open>ParseSum\<close>, \<open>ParseProduct\<close>, \<open>ParseTerm\<close> and \<open>ParseIdentifier\<close> call one another.
  Each takes the arithmetic \<open>F\<close> and the object and returns the value or the exception,
  and the object.
\<close>

function ParseSum :: "'v double_ops \<Rightarrow> 'v Calc \<Rightarrow> ('v, 'v) result"
  and ParseProduct :: "'v double_ops \<Rightarrow> 'v Calc \<Rightarrow> ('v, 'v) result"
  and ParseTerm :: "'v double_ops \<Rightarrow> 'v Calc \<Rightarrow> ('v, 'v) result"
  and ParseIdentifier :: "'v double_ops \<Rightarrow> 'v Calc \<Rightarrow> ('v, 'v) result"
where
  "ParseSum F c =
     and_then (ParseProduct F c) (\<lambda>left c1.
       let c2 = SkipWhite c1
       in if PeekChar c2 = CHR ''+''
          then and_then (ParseProduct F (snd (GetChar c2)))
                 (\<lambda>right c3. (Inr (d_add F left right), c3))
          else if PeekChar c2 = CHR ''-''
          then and_then (ParseProduct F (snd (GetChar c2)))
                 (\<lambda>right c3. (Inr (d_sub F left right), c3))
          else (Inr left, c2))"
| "ParseProduct F c =
     and_then (ParseTerm F c) (\<lambda>left c1.
       let c2 = SkipWhite c1
       in if PeekChar c2 = CHR ''*''
          then and_then (ParseSum F (snd (GetChar c2)))
                 (\<lambda>right c3. (Inr (d_mul F left right), c3))
          else if PeekChar c2 = CHR ''/''
          then and_then (ParseSum F (snd (GetChar c2)))
                 (\<lambda>right c3. (Inr (d_div F left right), c3))
          else (Inr left, c2))"
| "ParseTerm F c =
     (let c1 = SkipWhite c; next = PeekChar c1
      in if next = CHR ''(''
         then and_then (ParseSum F (snd (GetChar c1))) (\<lambda>result c2.
                and_then (Consume (CHR '')'') (SkipWhite c2)) (\<lambda>_ c3. (Inr result, c3)))
         else if IsFirstCharOfDouble next then GetConstant F c1
         else if isalpha next then ParseIdentifier F c1
         else (Inl (ParseError ''Expected a number, symbol or parenthesized expression.''
                               (m_currentPosition c1)), c1))"
| "ParseIdentifier F c =
     and_then (GetSymbol c) (\<lambda>symbol c1.
       let c2 = SkipWhite c1
       in if PeekChar c2 = CHR ''(''
          then (case m_functions c2 symbol of
                  Some f \<Rightarrow>
                    and_then (Consume (CHR ''('') c2) (\<lambda>_ c3.
                      and_then (ParseSum F c3) (\<lambda>parameter c4.
                        and_then (Consume (CHR '')'') c4) (\<lambda>_ c5. (Inr (f parameter), c5))))
                | None \<Rightarrow>
                    (Inl (ParseError (''Unknown function '' @ [CHR 0x22] @ symbol @ [CHR 0x22] @ ''.'')
                                     (m_currentPosition c2)), c2))
          else (case m_constants c2 symbol of
                  Some v \<Rightarrow> (Inr v, c2)
                | None \<Rightarrow>
                    (Inl (ParseError (''Unknown symbol '' @ [CHR 0x22] @ symbol @ [CHR 0x22] @ ''.'')
                                     (m_currentPosition c2)), c2)))"
  by pat_completeness auto



text \<open>
  The recursion is nested: \<open>ParseSum\<close> calls \<open>ParseProduct\<close> again on the object the first
  call returns. So that the cursor has not moved back is proved first, for the arguments
  on which the functions terminate, and used for termination.
\<close>

lemma and_then_Inr_moved:
  "cursor_moved c (snd r) \<Longrightarrow> cursor_moved c (snd (and_then r (\<lambda>v c'. (Inr (f v), c'))))"
  by (rule and_then_moved) (simp_all add: cursor_moved_refl)

lemma and_then_Consume_moved:
  "cursor_moved c c' \<Longrightarrow> cursor_moved c (snd (and_then (Consume ch c') (\<lambda>_ c''. (Inr x, c''))))"
  by (rule and_then_Inr_moved) (blast intro: cursor_moved_trans Consume_moved)

lemma Parse_moved_dom:
  "ParseSum_ParseProduct_ParseTerm_ParseIdentifier_dom (Inl (Inl (F, c))) \<Longrightarrow>
     cursor_moved c (snd (ParseSum F c))"
  "ParseSum_ParseProduct_ParseTerm_ParseIdentifier_dom (Inl (Inr (F, c))) \<Longrightarrow>
     cursor_moved c (snd (ParseProduct F c))"
  "ParseSum_ParseProduct_ParseTerm_ParseIdentifier_dom (Inr (Inl (F, c))) \<Longrightarrow>
     cursor_moved c (snd (ParseTerm F c))"
  "ParseSum_ParseProduct_ParseTerm_ParseIdentifier_dom (Inr (Inr (F, c))) \<Longrightarrow>
     cursor_moved c (snd (ParseIdentifier F c))"
proof (induct rule: ParseSum_ParseProduct_ParseTerm_ParseIdentifier.pinduct)
  case (1 F c)
  show ?case
    unfolding ParseSum.psimps [OF 1(1)]
  proof (rule and_then_moved [OF 1(2)])
    fix v c1
    assume r: "ParseProduct F c = (Inr v, c1)"
    let ?c2 = "SkipWhite c1"
    have m: "cursor_moved c1 (snd (GetChar ?c2))"
      using SkipWhite_moved GetChar_moved cursor_moved_trans by blast
    have "cursor_moved c1 (snd (ParseProduct F (snd (GetChar ?c2))))"
      if "PeekChar ?c2 = CHR ''+'' \<or> PeekChar ?c2 = CHR ''-''"
      using that 1(3) [OF r refl] 1(4) [OF r refl] m cursor_moved_trans by blast
    then show "cursor_moved c1 (snd (let c2 = SkipWhite c1
       in if PeekChar c2 = CHR ''+''
          then and_then (ParseProduct F (snd (GetChar c2)))
                 (\<lambda>right c3. (Inr (d_add F v right), c3))
          else if PeekChar c2 = CHR ''-''
          then and_then (ParseProduct F (snd (GetChar c2)))
                 (\<lambda>right c3. (Inr (d_sub F v right), c3))
          else (Inr v, c2)))"
      by (simp add: Let_def and_then_Inr_moved SkipWhite_moved)
  qed
next
  case (2 F c)
  show ?case
    unfolding ParseProduct.psimps [OF 2(1)]
  proof (rule and_then_moved [OF 2(2)])
    fix v c1
    assume r: "ParseTerm F c = (Inr v, c1)"
    let ?c2 = "SkipWhite c1"
    have m: "cursor_moved c1 (snd (GetChar ?c2))"
      using SkipWhite_moved GetChar_moved cursor_moved_trans by blast
    have "cursor_moved c1 (snd (ParseSum F (snd (GetChar ?c2))))"
      if "PeekChar ?c2 = CHR ''*'' \<or> PeekChar ?c2 = CHR ''/''"
      using that 2(3) [OF r refl] 2(4) [OF r refl] m cursor_moved_trans by blast
    then show "cursor_moved c1 (snd (let c2 = SkipWhite c1
       in if PeekChar c2 = CHR ''*''
          then and_then (ParseSum F (snd (GetChar c2)))
                 (\<lambda>right c3. (Inr (d_mul F v right), c3))
          else if PeekChar c2 = CHR ''/''
          then and_then (ParseSum F (snd (GetChar c2)))
                 (\<lambda>right c3. (Inr (d_div F v right), c3))
          else (Inr v, c2)))"
      by (simp add: Let_def and_then_Inr_moved SkipWhite_moved)
  qed
next
  case (3 F c)
  let ?c1 = "SkipWhite c"
  have m: "cursor_moved c (snd (GetChar ?c1))"
    using SkipWhite_moved GetChar_moved cursor_moved_trans by blast
  have paren: "cursor_moved c (snd (and_then (ParseSum F (snd (GetChar ?c1))) (\<lambda>result c2.
                and_then (Consume (CHR '')'') (SkipWhite c2)) (\<lambda>_ c3. (Inr result, c3)))))"
    if "PeekChar ?c1 = CHR ''(''"
  proof (rule and_then_moved)
    show "cursor_moved c (snd (ParseSum F (snd (GetChar ?c1))))"
      using 3(2) [OF refl refl that] m cursor_moved_trans by blast
  qed (simp add: and_then_Consume_moved SkipWhite_moved)
  have ident: "cursor_moved c (snd (ParseIdentifier F ?c1))"
    if "PeekChar ?c1 \<noteq> CHR ''(''" "\<not> IsFirstCharOfDouble (PeekChar ?c1)" "isalpha (PeekChar ?c1)"
    using 3(3) [OF refl refl that] SkipWhite_moved cursor_moved_trans by blast
  have const: "cursor_moved c (snd (GetConstant F ?c1))"
    using GetConstant_moved SkipWhite_moved cursor_moved_trans by blast
  show ?case
    unfolding ParseTerm.psimps [OF 3(1)]
    using paren ident const by (simp add: Let_def SkipWhite_moved)
next
  case (4 F c)
  show ?case
    unfolding ParseIdentifier.psimps [OF 4(1)]
  proof (rule and_then_moved [OF GetSymbol_moved])
    fix symbol c1
    assume r: "GetSymbol c = (Inr symbol, c1)"
    let ?c2 = "SkipWhite c1"
    have call: "cursor_moved c1 (snd (and_then (Consume (CHR ''('') ?c2) (\<lambda>_ c3.
                      and_then (ParseSum F c3) (\<lambda>parameter c4.
                        and_then (Consume (CHR '')'') c4) (\<lambda>_ c5. (Inr (f parameter), c5))))))"
      if "PeekChar ?c2 = CHR ''(''" "m_functions ?c2 symbol = Some f" for f
    proof (rule and_then_moved)
      show "cursor_moved c1 (snd (Consume (CHR ''('') ?c2))"
        using SkipWhite_moved Consume_moved cursor_moved_trans by blast
    next
      fix u c3
      assume "Consume (CHR ''('') ?c2 = (Inr u, c3)"
      from 4(2) [OF r refl that this]
      show "cursor_moved c3 (snd (and_then (ParseSum F c3) (\<lambda>parameter c4.
                        and_then (Consume (CHR '')'') c4) (\<lambda>_ c5. (Inr (f parameter), c5)))))"
        by (rule and_then_moved) (simp add: and_then_Consume_moved cursor_moved_refl)
    qed
    then show "cursor_moved c1 (snd (let c2 = SkipWhite c1
       in if PeekChar c2 = CHR ''(''
          then (case m_functions c2 symbol of
                  Some f \<Rightarrow>
                    and_then (Consume (CHR ''('') c2) (\<lambda>_ c3.
                      and_then (ParseSum F c3) (\<lambda>parameter c4.
                        and_then (Consume (CHR '')'') c4) (\<lambda>_ c5. (Inr (f parameter), c5))))
                | None \<Rightarrow>
                    (Inl (ParseError (''Unknown function '' @ [CHR 0x22] @ symbol @ [CHR 0x22] @ ''.'')
                                     (m_currentPosition c2)), c2))
          else (case m_constants c2 symbol of
                  Some v \<Rightarrow> (Inr v, c2)
                | None \<Rightarrow>
                    (Inl (ParseError (''Unknown symbol '' @ [CHR 0x22] @ symbol @ [CHR 0x22] @ ''.'')
                                     (m_currentPosition c2)), c2))))"
      by (simp add: Let_def SkipWhite_moved split: option.splits)
  qed
qed

lemma GetChar_SkipWhite_remaining:
  assumes "cursor_moved c c1" and "PeekChar (SkipWhite c1) \<noteq> NUL"
  shows "remaining (snd (GetChar (SkipWhite c1))) < remaining c"
proof -
  have "remaining (SkipWhite c1) \<le> remaining c"
    using assms(1) SkipWhite_moved cursor_moved_trans cursor_moved_remaining by blast
  with GetChar_remaining [OF assms(2)] show ?thesis by simp
qed

lemma Consume_remaining:
  assumes "Consume ch c = (Inr u, c')" and "ch \<noteq> NUL"
  shows "remaining c' < remaining c"
  using assms GetChar_remaining [of c] by (auto simp: Consume_def split: if_splits)

text \<open>
  The measure of a call: the characters left, then the rank of the function
  (\<open>ParseSum\<close> 3, \<open>ParseProduct\<close> 2, \<open>ParseTerm\<close> 1, \<open>ParseIdentifier\<close> 0).
\<close>

definition call_measure :: "'v Calc \<Rightarrow> nat \<Rightarrow> nat" where
  "call_measure c rank = 4 * remaining c + rank"

lemma Parse_dom_total: "All ParseSum_ParseProduct_ParseTerm_ParseIdentifier_dom"
proof (relation "measure (\<lambda>x. case x of
           Inl (Inl (F, c)) \<Rightarrow> call_measure c 3
         | Inl (Inr (F, c)) \<Rightarrow> call_measure c 2
         | Inr (Inl (F, c)) \<Rightarrow> call_measure c 1
         | Inr (Inr (F, c)) \<Rightarrow> call_measure c 0)", goal_cases)
  case 1
  show ?case by simp
next
  case (2 F c)
  show ?case by (simp add: call_measure_def)
next
  case (3 F c v ca x)
  from Parse_moved_dom(2) [OF 3(4)] 3(1) have "cursor_moved c ca" by simp
  with 3(2,3) have "remaining (snd (GetChar x)) < remaining c"
    by (simp add: GetChar_SkipWhite_remaining NUL_def)
  then show ?case by (simp add: call_measure_def)
next
  case (4 F c v ca x)
  from Parse_moved_dom(2) [OF 4(5)] 4(1) have "cursor_moved c ca" by simp
  with 4(2,4) have "remaining (snd (GetChar x)) < remaining c"
    by (simp add: GetChar_SkipWhite_remaining NUL_def)
  then show ?case by (simp add: call_measure_def)
next
  case (5 F c)
  show ?case by (simp add: call_measure_def)
next
  case (6 F c v ca x)
  from Parse_moved_dom(3) [OF 6(4)] 6(1) have "cursor_moved c ca" by simp
  with 6(2,3) have "remaining (snd (GetChar x)) < remaining c"
    by (simp add: GetChar_SkipWhite_remaining NUL_def)
  then show ?case by (simp add: call_measure_def)
next
  case (7 F c v ca x)
  from Parse_moved_dom(3) [OF 7(5)] 7(1) have "cursor_moved c ca" by simp
  with 7(2,4) have "remaining (snd (GetChar x)) < remaining c"
    by (simp add: GetChar_SkipWhite_remaining NUL_def)
  then show ?case by (simp add: call_measure_def)
next
  case (8 F c x xa)
  then have "PeekChar (SkipWhite c) = CHR ''(''" by simp
  then have "PeekChar (SkipWhite c) \<noteq> NUL" by (simp add: NUL_def)
  with 8(1) have "remaining (snd (GetChar x)) < remaining c"
    using GetChar_SkipWhite_remaining [OF cursor_moved_refl] by blast
  then show ?case by (simp add: call_measure_def)
next
  case (9 F c x xa)
  then have "remaining x \<le> remaining c"
    by (simp add: SkipWhite_moved cursor_moved_remaining)
  then show ?case by (simp add: call_measure_def)
next
  case (10 F c v ca x x2 va cb)
  from 10(1) GetSymbol_moved [of c] have "cursor_moved c ca" by simp
  then have "remaining x \<le> remaining c"
    using 10(2) SkipWhite_moved cursor_moved_trans cursor_moved_remaining by blast
  moreover have "remaining cb < remaining x"
    using 10(5) by (rule Consume_remaining) (simp add: NUL_def)
  ultimately show ?case by (simp add: call_measure_def)
qed

termination ParseSum
  using Parse_dom_total by blast

declare ParseSum.simps [simp del] ParseProduct.simps [simp del]
  ParseTerm.simps [simp del] ParseIdentifier.simps [simp del]

definition ParseExpression :: "'v double_ops \<Rightarrow> 'v Calc \<Rightarrow> ('v, 'v) result" where
  "ParseExpression F c =
     and_then (ParseSum F c) (\<lambda>expression c1.
       let c2 = SkipWhite c1
       in if PeekChar c2 \<noteq> NUL
          then (Inl (ParseError ''Syntax error.'' (m_currentPosition c2)), c2)
          else (Inr expression, c2))"

definition Evaluate :: "'v double_ops \<Rightarrow> 'v Calc \<Rightarrow> ('v, 'v) result" where
  "Evaluate F c = ParseExpression F c"

text \<open>
  What a caller does with a source string (\<open>Test\<close> and \<open>main\<close> in the source, the spec's
  \<^verbatim>\<open>Evaluate(source)\<close>): construct a \<open>Calc\<close> on it, call its \<open>Evaluate\<close>, keep the value or
  the exception.
\<close>

definition EvaluateSource :: "'v double_ops \<Rightarrow> string \<Rightarrow> exception + 'v" where
  "EvaluateSource F src = fst (Evaluate F (Calc F src))"


subsection \<open>Notions the properties are stated with\<close>

text \<open>\<open>cursor_in_range c\<close>: the position of \<open>c\<close> is at most the length of its source.\<close>

definition cursor_in_range :: "'v Calc \<Rightarrow> bool" where
  "cursor_in_range c = (m_currentPosition c \<le> length (m_src c))"

text \<open>
  \<open>scanned start sc\<close>: the string of \<open>sc\<close> is the text of the source from \<open>start\<close> to the
  cursor.
\<close>

definition scanned :: "nat \<Rightarrow> string \<times> 'v Calc \<Rightarrow> bool" where
  "scanned start sc =
     (m_currentPosition (snd sc) = start + length (fst sc) \<and>
      fst sc = take (length (fst sc)) (drop start (m_src (snd sc))))"

text \<open>
  \<open>after_NUL rest c\<close> is the object \<open>c\<close> with a NUL character and then \<open>rest\<close> appended to
  its source.
\<close>

definition after_NUL :: "string \<Rightarrow> 'v Calc \<Rightarrow> 'v Calc" where
  "after_NUL rest c = c\<lparr>m_src := m_src c @ NUL # rest\<rparr>"


section \<open>An instance of the arithmetic\<close>

text \<open>
  For running the model on concrete sources: the real numbers with their exact
  arithmetic, and the exact value of a decimal numeral. It never reports a range error,
  its division by zero gives 0 where IEEE 754 gives an infinity or a NaN, and it does not
  round; on the small integers of the examples below IEEE 754 doubles compute the same
  values.
\<close>

definition digits_value :: "string \<Rightarrow> nat" where
  "digits_value ds = foldl (\<lambda>n d. 10 * n + (of_char d - 48)) 0 ds"

definition exact_strtod :: "string \<Rightarrow> real option" where
  "exact_strtod s =
     (let t = strip_sign s;
          int_part = takeWhile isdigit t;
          t1 = dropWhile isdigit t;
          t2 = (if take 1 t1 = ''.'' then drop 1 t1 else []);
          frac_part = takeWhile isdigit t2;
          t3 = (if take 1 t1 = ''.'' then dropWhile isdigit t2 else t1);
          t4 = (if take 1 t3 = ''e'' \<or> take 1 t3 = ''E'' then drop 1 t3 else []);
          exponent = digits_value (takeWhile isdigit (strip_sign t4));
          mantissa = real (digits_value (int_part @ frac_part)) / 10 ^ length frac_part;
          scaled = (if take 1 t4 = ''-'' then mantissa / 10 ^ exponent
                    else mantissa * 10 ^ exponent)
      in Some (if take 1 s = ''-'' then - scaled else scaled))"

definition exact_ops :: "real double_ops" where
  "exact_ops =
     \<lparr> d_add = (+), d_sub = (-), d_mul = (*), d_div = (/),
       d_of_int = of_int, d_exp = exp, d_atan = arctan,
       d_cos = cos, d_sin = sin, d_sqrt = sqrt,
       d_strtod = exact_strtod \<rparr>"


section \<open>Properties\<close>

text \<open>The equations that run the model on a concrete source.\<close>

lemmas run_simps =
  EvaluateSource_def Evaluate_def ParseExpression_def Calc_def
  ParseSum.simps ParseProduct.simps ParseTerm.simps ParseIdentifier.simps
  GetConstant_def GetMantissa_def GetExponent_def GetSign_def GetFraction_def
  ConvertConstant_def GetSymbol_def IsFirstCharOfDouble_def
  push_back_digits.simps push_back_alnums.simps push_back_GetChar_def
  SkipWhite.simps Consume_def GetChar_def PeekChar_def and_then_def
  stod_def strip_sign_def
  isdigit_def isalpha_def isalnum_def isspace_def NUL_def Let_def

lemma exact_ops_sel:
  "d_add exact_ops = (+)" "d_sub exact_ops = (-)" "d_mul exact_ops = (*)"
  "d_div exact_ops = (/)" "d_of_int exact_ops = of_int" "d_exp exact_ops = exp"
  "d_atan exact_ops = arctan" "d_cos exact_ops = cos" "d_sin exact_ops = sin"
  "d_sqrt exact_ops = sqrt" "d_strtod exact_ops = exact_strtod"
  by (simp_all add: exact_ops_def)

lemmas exact_simps = exact_ops_sel exact_strtod_def digits_value_def

lemma Parse_moved:
  "cursor_moved c (snd (ParseSum F c))"
  "cursor_moved c (snd (ParseProduct F c))"
  "cursor_moved c (snd (ParseTerm F c))"
  "cursor_moved c (snd (ParseIdentifier F c))"
  using Parse_moved_dom Parse_dom_total by blast+

lemma and_then_Inl [simp]: "and_then (Inl e, c) k = (Inl e, c)"
  by (simp add: and_then_def)

lemma and_then_Inr [simp]: "and_then (Inr v, c) k = k v c"
  by (simp add: and_then_def)

subsection \<open>The right operand of a product\<close>

text \<open>
  C1. When \<open>ParseProduct\<close> has parsed its term and the next character after white space is
  \<^verbatim>\<open>*\<close> or \<^verbatim>\<open>/\<close>, its right operand is what \<open>ParseSum\<close> (not \<open>ParseProduct\<close> or \<open>ParseTerm\<close>)
  parses after that character, and the result is the product or the quotient of the two.
  When that sum is a product, a \<^verbatim>\<open>+\<close> and a product, with values \<open>x\<close> and \<open>y\<close>, the result
  is \<open>d_mul F left (d_add F x y)\<close>: the addition is done first.
  So \<^verbatim>\<open>2*3+4\<close> evaluates to 2 * (3 + 4), whatever the arithmetic: with \<open>a\<close>, \<open>b\<close>, \<open>d\<close> the
  values \<^verbatim>\<open>stod\<close> gives to \<^verbatim>\<open>2\<close>, \<^verbatim>\<open>3\<close>, \<^verbatim>\<open>4\<close>, the result is \<open>d_mul F a (d_add F b d)\<close>.
\<close>

theorem product_right_operand_is_sum:
  "(ParseTerm F c = (Inr left, c1) \<longrightarrow>
      (PeekChar (SkipWhite c1) = CHR ''*'' \<longrightarrow>
         ParseProduct F c =
           and_then (ParseSum F (snd (GetChar (SkipWhite c1))))
             (\<lambda>right c3. (Inr (d_mul F left right), c3))) \<and>
      (PeekChar (SkipWhite c1) = CHR ''/'' \<longrightarrow>
         ParseProduct F c =
           and_then (ParseSum F (snd (GetChar (SkipWhite c1))))
             (\<lambda>right c3. (Inr (d_div F left right), c3)))) \<and>
   (ParseTerm F c = (Inr left, c1) \<and> PeekChar (SkipWhite c1) = CHR ''*'' \<and>
    ParseProduct F (snd (GetChar (SkipWhite c1))) = (Inr x, c2) \<and>
    PeekChar (SkipWhite c2) = CHR ''+'' \<and>
    ParseProduct F (snd (GetChar (SkipWhite c2))) = (Inr y, c3) \<longrightarrow>
      ParseProduct F c = (Inr (d_mul F left (d_add F x y)), c3)) \<and>
   (d_strtod F ''2'' = Some a \<and> d_strtod F ''3'' = Some b \<and> d_strtod F ''4'' = Some d \<longrightarrow>
      EvaluateSource F ''2*3+4'' = Inr (d_mul F a (d_add F b d)))"
proof (intro conjI impI; (elim conjE)?)
  assume "ParseTerm F c = (Inr left, c1)" "PeekChar (SkipWhite c1) = CHR ''*''"
    "ParseProduct F (snd (GetChar (SkipWhite c1))) = (Inr x, c2)"
    "PeekChar (SkipWhite c2) = CHR ''+''"
    "ParseProduct F (snd (GetChar (SkipWhite c2))) = (Inr y, c3)"
  then show "ParseProduct F c = (Inr (d_mul F left (d_add F x y)), c3)"
    by (simp add: ParseProduct.simps [of F c]
        ParseSum.simps [of F "snd (GetChar (SkipWhite c1))"] Let_def)
next
  assume "ParseTerm F c = (Inr left, c1)" "PeekChar (SkipWhite c1) = CHR ''*''"
  then show "ParseProduct F c =
           and_then (ParseSum F (snd (GetChar (SkipWhite c1))))
             (\<lambda>right c3. (Inr (d_mul F left right), c3))"
    by (simp add: ParseProduct.simps [of F c] Let_def)
next
  assume "ParseTerm F c = (Inr left, c1)" "PeekChar (SkipWhite c1) = CHR ''/''"
  then show "ParseProduct F c =
           and_then (ParseSum F (snd (GetChar (SkipWhite c1))))
             (\<lambda>right c3. (Inr (d_div F left right), c3))"
    by (simp add: ParseProduct.simps [of F c] Let_def)
next
  assume "d_strtod F ''2'' = Some a" "d_strtod F ''3'' = Some b" "d_strtod F ''4'' = Some d"
  then show "EvaluateSource F ''2*3+4'' = Inr (d_mul F a (d_add F b d))"
    by (simp add: run_simps)
qed

theorem product_right_operand_is_sum_witness:
  "fst (ParseProduct exact_ops (Calc exact_ops ''2*3+4'')) = Inr 14 \<and>
   fst (ParseProduct exact_ops (Calc exact_ops ''8/3+1'')) = Inr 2 \<and>
   EvaluateSource exact_ops ''2*3+4'' = Inr 14 \<and>
   EvaluateSource exact_ops ''2*3+4'' \<noteq> Inr 10"
proof -
  let ?c = "Calc exact_ops ''2*3+4''" and ?d = "Calc exact_ops ''8/3+1''"
  have c: "ParseTerm exact_ops ?c = (Inr 2, ?c\<lparr>m_currentPosition := 1\<rparr>)"
    "PeekChar (SkipWhite (?c\<lparr>m_currentPosition := 1\<rparr>)) = CHR ''*''"
    "ParseProduct exact_ops (snd (GetChar (SkipWhite (?c\<lparr>m_currentPosition := 1\<rparr>)))) =
       (Inr 3, ?c\<lparr>m_currentPosition := 3\<rparr>)"
    "PeekChar (SkipWhite (?c\<lparr>m_currentPosition := 3\<rparr>)) = CHR ''+''"
    "ParseProduct exact_ops (snd (GetChar (SkipWhite (?c\<lparr>m_currentPosition := 3\<rparr>)))) =
       (Inr 4, ?c\<lparr>m_currentPosition := 5\<rparr>)"
    by (simp_all add: run_simps exact_simps)
  have d: "ParseTerm exact_ops ?d = (Inr 8, ?d\<lparr>m_currentPosition := 1\<rparr>)"
    "PeekChar (SkipWhite (?d\<lparr>m_currentPosition := 1\<rparr>)) = CHR ''/''"
    "fst (and_then (ParseSum exact_ops (snd (GetChar (SkipWhite (?d\<lparr>m_currentPosition := 1\<rparr>)))))
       (\<lambda>right c3. (Inr (d_div exact_ops 8 right), c3))) = Inr 2"
    by (simp_all add: run_simps exact_simps)
  have lits: "d_strtod exact_ops ''2'' = Some 2" "d_strtod exact_ops ''3'' = Some 3"
    "d_strtod exact_ops ''4'' = Some 4"
    by (simp_all add: run_simps exact_simps)
  have ops: "d_mul exact_ops 2 (d_add exact_ops 3 4) = 14"
    by (simp add: exact_ops_sel)
  have "ParseProduct exact_ops ?c =
      (Inr (d_mul exact_ops 2 (d_add exact_ops 3 4)), ?c\<lparr>m_currentPosition := 5\<rparr>)"
    using product_right_operand_is_sum
            [of exact_ops ?c 2 "?c\<lparr>m_currentPosition := 1\<rparr>" 3
                "?c\<lparr>m_currentPosition := 3\<rparr>" 4 "?c\<lparr>m_currentPosition := 5\<rparr>" 2 3 4] c
    by blast
  moreover have "EvaluateSource exact_ops ''2*3+4'' = Inr (d_mul exact_ops 2 (d_add exact_ops 3 4))"
    using product_right_operand_is_sum
            [of exact_ops ?c 2 "?c\<lparr>m_currentPosition := 1\<rparr>" 3
                "?c\<lparr>m_currentPosition := 3\<rparr>" 4 "?c\<lparr>m_currentPosition := 5\<rparr>" 2 3 4] lits
    by blast
  moreover have "ParseProduct exact_ops ?d =
      and_then (ParseSum exact_ops (snd (GetChar (SkipWhite (?d\<lparr>m_currentPosition := 1\<rparr>)))))
        (\<lambda>right c3. (Inr (d_div exact_ops 8 right), c3))"
    using product_right_operand_is_sum
            [of exact_ops ?d 8 "?d\<lparr>m_currentPosition := 1\<rparr>" 3
                "?d\<lparr>m_currentPosition := 3\<rparr>" 1 "?d\<lparr>m_currentPosition := 5\<rparr>" 2 3 4] d(1,2)
    by blast
  ultimately show ?thesis
    using d(3) ops by simp
qed

subsection \<open>A sum has at most one operator\<close>

text \<open>
  C2. \<open>ParseSum\<close> parses one product, and after it at most one \<^verbatim>\<open>+\<close> or \<^verbatim>\<open>-\<close> and one more
  product: it returns the sum or the difference with the object as the second product
  left it, whatever follows. \<open>Evaluate\<close> throws \<^verbatim>\<open>Syntax error.\<close> at the first character
  after white space that the sum has left. So \<^verbatim>\<open>1+2\<close> is the sum of the two constants,
  \<^verbatim>\<open>4-5\<close> their difference, and on \<^verbatim>\<open>1+2+3\<close> the sum stops with the cursor at offset 3 and
  \<open>Evaluate\<close> throws \<^verbatim>\<open>Syntax error.\<close> with position 3.
\<close>

theorem sum_has_one_operator:
  "(ParseProduct F c = (Inr left, c1) \<and>
    ParseProduct F (snd (GetChar (SkipWhite c1))) = (Inr right, c3) \<longrightarrow>
      (PeekChar (SkipWhite c1) = CHR ''+'' \<longrightarrow> ParseSum F c = (Inr (d_add F left right), c3)) \<and>
      (PeekChar (SkipWhite c1) = CHR ''-'' \<longrightarrow> ParseSum F c = (Inr (d_sub F left right), c3))) \<and>
   (ParseSum F c = (Inr v, c4) \<and> PeekChar (SkipWhite c4) \<noteq> NUL \<longrightarrow>
      Evaluate F c =
        (Inl (ParseError ''Syntax error.'' (m_currentPosition (SkipWhite c4))), SkipWhite c4)) \<and>
   (d_strtod F ''1'' = Some a \<and> d_strtod F ''2'' = Some b \<longrightarrow>
      EvaluateSource F ''1+2'' = Inr (d_add F a b) \<and>
      ParseSum F (Calc F ''1+2+3'') = (Inr (d_add F a b), (Calc F ''1+2+3'')\<lparr>m_currentPosition := 3\<rparr>) \<and>
      EvaluateSource F ''1+2+3'' = Inl (ParseError ''Syntax error.'' 3)) \<and>
   (d_strtod F ''4'' = Some a' \<and> d_strtod F ''5'' = Some b' \<longrightarrow>
      EvaluateSource F ''4-5'' = Inr (d_sub F a' b'))"
proof (intro conjI impI; (elim conjE)?)
  assume "ParseProduct F c = (Inr left, c1)"
    "ParseProduct F (snd (GetChar (SkipWhite c1))) = (Inr right, c3)"
    "PeekChar (SkipWhite c1) = CHR ''+''"
  then show "ParseSum F c = (Inr (d_add F left right), c3)"
    by (simp add: ParseSum.simps [of F c] Let_def)
next
  assume "ParseProduct F c = (Inr left, c1)"
    "ParseProduct F (snd (GetChar (SkipWhite c1))) = (Inr right, c3)"
    "PeekChar (SkipWhite c1) = CHR ''-''"
  then show "ParseSum F c = (Inr (d_sub F left right), c3)"
    by (simp add: ParseSum.simps [of F c] Let_def)
next
  assume "ParseSum F c = (Inr v, c4)" "PeekChar (SkipWhite c4) \<noteq> NUL"
  then show "Evaluate F c =
        (Inl (ParseError ''Syntax error.'' (m_currentPosition (SkipWhite c4))), SkipWhite c4)"
    by (simp add: Evaluate_def ParseExpression_def Let_def)
next
  assume "d_strtod F ''1'' = Some a" "d_strtod F ''2'' = Some b"
  then show "EvaluateSource F ''1+2'' = Inr (d_add F a b)"
    by (simp add: run_simps)
next
  assume "d_strtod F ''1'' = Some a" "d_strtod F ''2'' = Some b"
  then show "ParseSum F (Calc F ''1+2+3'') =
      (Inr (d_add F a b), (Calc F ''1+2+3'')\<lparr>m_currentPosition := 3\<rparr>)"
    by (simp add: run_simps)
next
  assume "d_strtod F ''1'' = Some a" "d_strtod F ''2'' = Some b"
  then show "EvaluateSource F ''1+2+3'' = Inl (ParseError ''Syntax error.'' 3)"
    by (simp add: run_simps)
next
  assume "d_strtod F ''4'' = Some a'" "d_strtod F ''5'' = Some b'"
  then show "EvaluateSource F ''4-5'' = Inr (d_sub F a' b')"
    by (simp add: run_simps)
qed

theorem sum_has_one_operator_witness:
  "ParseSum exact_ops (Calc exact_ops ''1+2+3'') =
     (Inr 3, (Calc exact_ops ''1+2+3'')\<lparr>m_currentPosition := 3\<rparr>) \<and>
   ParseSum exact_ops (Calc exact_ops ''4-5'') =
     (Inr (- 1), (Calc exact_ops ''4-5'')\<lparr>m_currentPosition := 3\<rparr>) \<and>
   Evaluate exact_ops (Calc exact_ops ''1+2+3'') =
     (Inl (ParseError ''Syntax error.'' 3), (Calc exact_ops ''1+2+3'')\<lparr>m_currentPosition := 3\<rparr>) \<and>
   EvaluateSource exact_ops ''1+2'' = Inr 3 \<and>
   EvaluateSource exact_ops ''1+2+3'' = Inl (ParseError ''Syntax error.'' 3) \<and>
   EvaluateSource exact_ops ''4-5'' = Inr (- 1)"
proof -
  let ?c = "Calc exact_ops ''1+2+3''" and ?d = "Calc exact_ops ''4-5''"
  have c: "ParseProduct exact_ops ?c = (Inr 1, ?c\<lparr>m_currentPosition := 1\<rparr>)"
    "ParseProduct exact_ops (snd (GetChar (SkipWhite (?c\<lparr>m_currentPosition := 1\<rparr>)))) =
       (Inr 2, ?c\<lparr>m_currentPosition := 3\<rparr>)"
    "PeekChar (SkipWhite (?c\<lparr>m_currentPosition := 1\<rparr>)) = CHR ''+''"
    "PeekChar (SkipWhite (?c\<lparr>m_currentPosition := 3\<rparr>)) \<noteq> NUL"
    "SkipWhite (?c\<lparr>m_currentPosition := 3\<rparr>) = ?c\<lparr>m_currentPosition := 3\<rparr>"
    by (simp_all add: run_simps exact_simps)
  have d: "ParseProduct exact_ops ?d = (Inr 4, ?d\<lparr>m_currentPosition := 1\<rparr>)"
    "ParseProduct exact_ops (snd (GetChar (SkipWhite (?d\<lparr>m_currentPosition := 1\<rparr>)))) =
       (Inr 5, ?d\<lparr>m_currentPosition := 3\<rparr>)"
    "PeekChar (SkipWhite (?d\<lparr>m_currentPosition := 1\<rparr>)) = CHR ''-''"
    by (simp_all add: run_simps exact_simps)
  have lits: "d_strtod exact_ops ''1'' = Some 1" "d_strtod exact_ops ''2'' = Some 2"
    "d_strtod exact_ops ''4'' = Some 4" "d_strtod exact_ops ''5'' = Some 5"
    by (simp_all add: run_simps exact_simps)
  have s: "ParseSum exact_ops ?c = (Inr 3, ?c\<lparr>m_currentPosition := 3\<rparr>)"
    using sum_has_one_operator
            [of exact_ops ?c 1 "?c\<lparr>m_currentPosition := 1\<rparr>" 2 "?c\<lparr>m_currentPosition := 3\<rparr>"]
          c by (simp add: exact_ops_sel)
  show ?thesis
    using sum_has_one_operator
            [of exact_ops ?c 1 "?c\<lparr>m_currentPosition := 1\<rparr>" 2 "?c\<lparr>m_currentPosition := 3\<rparr>"
                3 "?c\<lparr>m_currentPosition := 3\<rparr>" 1 2 4 5]
          sum_has_one_operator
            [of exact_ops ?d 4 "?d\<lparr>m_currentPosition := 1\<rparr>" 5 "?d\<lparr>m_currentPosition := 3\<rparr>"
                "- 1" "?d\<lparr>m_currentPosition := 3\<rparr>" 1 2 4 5]
          c d lits s
    by (simp add: exact_ops_sel)
qed

subsection \<open>Identifiers\<close>

text \<open>
  C3. When \<open>GetSymbol\<close> has read a name and the next character after white space is \<^verbatim>\<open>(\<close>,
  the name is looked up in \<open>m_functions\<close>: when it is there, the \<^verbatim>\<open>(\<close> is consumed, one
  \<open>ParseSum\<close> parses the argument, \<^verbatim>\<open>)\<close> is consumed and the function is applied to the
  argument; when it is not, \<open>ParseIdentifier\<close> throws \<^verbatim>\<open>Unknown function "name".\<close>. When the
  next character is not \<^verbatim>\<open>(\<close>, the name is looked up in \<open>m_constants\<close>: its value is the
  result, or \<open>ParseIdentifier\<close> throws \<^verbatim>\<open>Unknown symbol "name".\<close>. So \<^verbatim>\<open>foo(1)\<close> throws
  \<^verbatim>\<open>Unknown function "foo".\<close> and \<^verbatim>\<open>bar\<close> throws \<^verbatim>\<open>Unknown symbol "bar".\<close>, both with
  position 3.
\<close>

theorem identifier_resolution:
  "(GetSymbol c = (Inr symbol, c1) \<longrightarrow>
      ParseIdentifier F c =
        (let c2 = SkipWhite c1
         in if PeekChar c2 = CHR ''(''
            then (case m_functions c2 symbol of
                    Some f \<Rightarrow>
                      and_then (ParseSum F (snd (GetChar c2))) (\<lambda>parameter c4.
                        and_then (Consume (CHR '')'') c4) (\<lambda>_ c5. (Inr (f parameter), c5)))
                  | None \<Rightarrow>
                      (Inl (ParseError (''Unknown function '' @ [CHR 0x22] @ symbol @ [CHR 0x22] @ ''.'')
                                       (m_currentPosition c2)), c2))
            else (case m_constants c2 symbol of
                    Some v \<Rightarrow> (Inr v, c2)
                  | None \<Rightarrow>
                      (Inl (ParseError (''Unknown symbol '' @ [CHR 0x22] @ symbol @ [CHR 0x22] @ ''.'')
                                       (m_currentPosition c2)), c2)))) \<and>
   EvaluateSource F ''foo(1)'' =
     Inl (ParseError (''Unknown function '' @ [CHR 0x22] @ ''foo'' @ [CHR 0x22] @ ''.'') 3) \<and>
   EvaluateSource F ''bar'' =
     Inl (ParseError (''Unknown symbol '' @ [CHR 0x22] @ ''bar'' @ [CHR 0x22] @ ''.'') 3)"
proof (intro conjI impI)
  assume "GetSymbol c = (Inr symbol, c1)"
  then show "ParseIdentifier F c =
        (let c2 = SkipWhite c1
         in if PeekChar c2 = CHR ''(''
            then (case m_functions c2 symbol of
                    Some f \<Rightarrow>
                      and_then (ParseSum F (snd (GetChar c2))) (\<lambda>parameter c4.
                        and_then (Consume (CHR '')'') c4) (\<lambda>_ c5. (Inr (f parameter), c5)))
                  | None \<Rightarrow>
                      (Inl (ParseError (''Unknown function '' @ [CHR 0x22] @ symbol @ [CHR 0x22] @ ''.'')
                                       (m_currentPosition c2)), c2))
            else (case m_constants c2 symbol of
                    Some v \<Rightarrow> (Inr v, c2)
                  | None \<Rightarrow>
                      (Inl (ParseError (''Unknown symbol '' @ [CHR 0x22] @ symbol @ [CHR 0x22] @ ''.'')
                                       (m_currentPosition c2)), c2)))"
    by (simp add: ParseIdentifier.simps [of F c] Let_def Consume_def split: option.splits)
next
  show "EvaluateSource F ''foo(1)'' =
     Inl (ParseError (''Unknown function '' @ [CHR 0x22] @ ''foo'' @ [CHR 0x22] @ ''.'') 3)"
    by (simp add: run_simps)
next
  show "EvaluateSource F ''bar'' =
     Inl (ParseError (''Unknown symbol '' @ [CHR 0x22] @ ''bar'' @ [CHR 0x22] @ ''.'') 3)"
    by (simp add: run_simps)
qed

theorem identifier_resolution_witness:
  "GetSymbol (Calc exact_ops ''sqrt (4)'') =
     (Inr ''sqrt'', (Calc exact_ops ''sqrt (4)'')\<lparr>m_currentPosition := 4\<rparr>) \<and>
   ParseIdentifier exact_ops (Calc exact_ops ''sqrt (4)'') =
     (Inr 2, (Calc exact_ops ''sqrt (4)'')\<lparr>m_currentPosition := 8\<rparr>) \<and>
   ParseIdentifier exact_ops (Calc exact_ops ''sqrt 4'') =
     (Inl (ParseError (''Unknown symbol '' @ [CHR 0x22] @ ''sqrt'' @ [CHR 0x22] @ ''.'') 5),
      (Calc exact_ops ''sqrt 4'')\<lparr>m_currentPosition := 5\<rparr>) \<and>
   ParseIdentifier exact_ops (Calc exact_ops ''pi(4)'') =
     (Inl (ParseError (''Unknown function '' @ [CHR 0x22] @ ''pi'' @ [CHR 0x22] @ ''.'') 2),
      (Calc exact_ops ''pi(4)'')\<lparr>m_currentPosition := 2\<rparr>) \<and>
   ParseIdentifier exact_ops (Calc exact_ops ''pi'') =
     (Inr (arctan 1 * 4), (Calc exact_ops ''pi'')\<lparr>m_currentPosition := 2\<rparr>)"
proof -
  let ?a = "Calc exact_ops ''sqrt (4)''" and ?b = "Calc exact_ops ''sqrt 4''"
  let ?c = "Calc exact_ops ''pi(4)''" and ?d = "Calc exact_ops ''pi''"
  have a: "GetSymbol ?a = (Inr ''sqrt'', ?a\<lparr>m_currentPosition := 4\<rparr>)"
    by (simp add: run_simps)
  have b: "GetSymbol ?b = (Inr ''sqrt'', ?b\<lparr>m_currentPosition := 4\<rparr>)"
    by (simp add: run_simps)
  have c: "GetSymbol ?c = (Inr ''pi'', ?c\<lparr>m_currentPosition := 2\<rparr>)"
    by (simp add: run_simps)
  have d: "GetSymbol ?d = (Inr ''pi'', ?d\<lparr>m_currentPosition := 2\<rparr>)"
    by (simp add: run_simps)
  have "ParseIdentifier exact_ops ?a = (Inr 2, ?a\<lparr>m_currentPosition := 8\<rparr>)"
    using identifier_resolution [of ?a "''sqrt''" "?a\<lparr>m_currentPosition := 4\<rparr>" exact_ops] a
    by (simp add: run_simps exact_simps)
  moreover have "ParseIdentifier exact_ops ?b =
     (Inl (ParseError (''Unknown symbol '' @ [CHR 0x22] @ ''sqrt'' @ [CHR 0x22] @ ''.'') 5),
      ?b\<lparr>m_currentPosition := 5\<rparr>)"
    using identifier_resolution [of ?b "''sqrt''" "?b\<lparr>m_currentPosition := 4\<rparr>" exact_ops] b
    by (simp add: run_simps exact_simps)
  moreover have "ParseIdentifier exact_ops ?c =
     (Inl (ParseError (''Unknown function '' @ [CHR 0x22] @ ''pi'' @ [CHR 0x22] @ ''.'') 2),
      ?c\<lparr>m_currentPosition := 2\<rparr>)"
    using identifier_resolution [of ?c "''pi''" "?c\<lparr>m_currentPosition := 2\<rparr>" exact_ops] c
    by (simp add: run_simps exact_simps)
  moreover have "ParseIdentifier exact_ops ?d = (Inr (arctan 1 * 4), ?d\<lparr>m_currentPosition := 2\<rparr>)"
    using identifier_resolution [of ?d "''pi''" "?d\<lparr>m_currentPosition := 2\<rparr>" exact_ops] d
    by (simp add: run_simps exact_simps)
  ultimately show ?thesis using a by simp
qed

subsection \<open>The cursor stays inside the source\<close>

lemma ParseExpression_moved: "cursor_moved c (snd (ParseExpression F c))"
  unfolding ParseExpression_def
  by (rule and_then_moved [OF Parse_moved(1)]) (simp add: Let_def SkipWhite_moved)

lemma cursor_moved_in_range:
  assumes "cursor_moved c c'" and "m_currentPosition c \<le> length (m_src c)"
  shows "m_src c' = m_src c \<and> m_currentPosition c \<le> m_currentPosition c' \<and>
         m_currentPosition c' \<le> length (m_src c')"
proof -
  from assms(1) have "c' = c\<lparr>m_currentPosition := m_currentPosition c'\<rparr>"
    by (simp add: cursor_moved_def)
  then have "m_src c' = m_src (c\<lparr>m_currentPosition := m_currentPosition c'\<rparr>)"
    by simp
  then have "m_src c' = m_src c"
    by simp
  with assms show ?thesis by (simp add: cursor_moved_def)
qed

text \<open>
  C8. The constructor sets the position to 0. From an object whose position is at most
  the length of its source, each of \<open>GetChar\<close>, \<open>SkipWhite\<close>, \<open>Consume\<close>, \<open>GetSymbol\<close>,
  \<open>GetConstant\<close>, \<open>ParseIdentifier\<close>, \<open>ParseTerm\<close>, \<open>ParseProduct\<close>, \<open>ParseSum\<close>,
  \<open>ParseExpression\<close> and \<open>Evaluate\<close> leaves an object with the same source, a position that
  is not smaller, and at most the length of the source, whether it returns or throws.
  (\<open>PeekChar\<close> returns a character and no object: it changes nothing.)
\<close>

theorem cursor_invariant:
  assumes "m_currentPosition c \<le> length (m_src c)"
  shows "m_currentPosition (Calc F src) = 0 \<and>
    (\<forall>c' \<in> {snd (GetChar c), SkipWhite c, snd (Consume ch c), snd (GetSymbol c),
              snd (GetConstant F c), snd (ParseIdentifier F c), snd (ParseTerm F c),
              snd (ParseProduct F c), snd (ParseSum F c), snd (ParseExpression F c),
              snd (Evaluate F c)}.
       m_src c' = m_src c \<and> m_currentPosition c \<le> m_currentPosition c' \<and>
       m_currentPosition c' \<le> length (m_src c'))"
proof -
  have "\<forall>c' \<in> {snd (GetChar c), SkipWhite c, snd (Consume ch c), snd (GetSymbol c),
              snd (GetConstant F c), snd (ParseIdentifier F c), snd (ParseTerm F c),
              snd (ParseProduct F c), snd (ParseSum F c), snd (ParseExpression F c),
              snd (Evaluate F c)}. cursor_moved c c'"
    by (simp add: GetChar_moved SkipWhite_moved Consume_moved GetSymbol_moved
        GetConstant_moved Parse_moved ParseExpression_moved Evaluate_def)
  then have "\<forall>c' \<in> {snd (GetChar c), SkipWhite c, snd (Consume ch c), snd (GetSymbol c),
              snd (GetConstant F c), snd (ParseIdentifier F c), snd (ParseTerm F c),
              snd (ParseProduct F c), snd (ParseSum F c), snd (ParseExpression F c),
              snd (Evaluate F c)}.
       m_src c' = m_src c \<and> m_currentPosition c \<le> m_currentPosition c' \<and>
       m_currentPosition c' \<le> length (m_src c')"
    using cursor_moved_in_range [OF _ assms] by blast
  moreover have "m_currentPosition (Calc F src) = 0"
    by (simp add: Calc_def)
  ultimately show ?thesis by blast
qed

theorem cursor_invariant_witness:
  "m_currentPosition (Calc exact_ops ''(1 + 2'') \<le> length (m_src (Calc exact_ops ''(1 + 2'')) \<and>
   m_currentPosition (snd (Evaluate exact_ops (Calc exact_ops ''(1 + 2''))) = 6 \<and>
   m_currentPosition (snd (Evaluate exact_ops (Calc exact_ops ''(1 + 2''))) \<le> length ''(1 + 2''"
proof -
  let ?c = "Calc exact_ops ''(1 + 2''"
  have h: "m_currentPosition ?c \<le> length (m_src ?c)"
    by (simp add: Calc_def)
  have e: "m_currentPosition (snd (Evaluate exact_ops ?c)) = 6"
    by (simp add: run_simps exact_simps)
  have s: "m_src ?c = ''(1 + 2''"
    by (simp add: Calc_def)
  from cursor_invariant [OF h, of exact_ops "''(1 + 2''" "CHR '')''"]
  have "m_currentPosition (snd (Evaluate exact_ops ?c)) \<le> length (m_src (snd (Evaluate exact_ops ?c)))
    \<and> m_src (snd (Evaluate exact_ops ?c)) = m_src ?c"
    by blast
  with h e s show ?thesis by simp
qed

subsection \<open>Termination\<close>

text \<open>
  C9. Every call of \<open>ParseSum\<close>, \<open>ParseProduct\<close>, \<open>ParseTerm\<close> and \<open>ParseIdentifier\<close>, on every
  object, is in the accessible part of the relation between a call and the calls it makes
  (the domain on which the recursion is well-founded), and so is every run of the three
  loops; \<open>Evaluate\<close> is \<open>ParseSum\<close> and one \<open>SkipWhite\<close>. The reason is the one the claim
  gives: a function calls the next one down (\<open>ParseSum\<close>, \<open>ParseProduct\<close>, \<open>ParseTerm\<close>,
  \<open>ParseIdentifier\<close>) with no fewer characters left, and wherever it calls \<open>ParseSum\<close> or
  calls \<open>ParseProduct\<close> a second time it has consumed an operator or a \<^verbatim>\<open>(\<close> first, so that
  fewer characters are left than it started with.
\<close>

theorem evaluation_terminates:
  "ParseSum_ParseProduct_ParseTerm_ParseIdentifier_dom (Inl (Inl (F, c))) \<and>
   ParseSum_ParseProduct_ParseTerm_ParseIdentifier_dom (Inl (Inr (F, c))) \<and>
   ParseSum_ParseProduct_ParseTerm_ParseIdentifier_dom (Inr (Inl (F, c))) \<and>
   ParseSum_ParseProduct_ParseTerm_ParseIdentifier_dom (Inr (Inr (F, c))) \<and>
   SkipWhite_dom c \<and> push_back_digits_dom (s, c) \<and> push_back_alnums_dom (s, c) \<and>
   (ParseProduct F c = (Inr left, c1) \<and>
    (PeekChar (SkipWhite c1) = CHR ''+'' \<or> PeekChar (SkipWhite c1) = CHR ''-'') \<longrightarrow>
      remaining (snd (GetChar (SkipWhite c1))) < remaining c) \<and>
   (ParseTerm F c = (Inr left, c1) \<and>
    (PeekChar (SkipWhite c1) = CHR ''*'' \<or> PeekChar (SkipWhite c1) = CHR ''/'') \<longrightarrow>
      remaining (snd (GetChar (SkipWhite c1))) < remaining c) \<and>
   (PeekChar (SkipWhite c) = CHR ''('' \<longrightarrow>
      remaining (snd (GetChar (SkipWhite c))) < remaining c) \<and>
   (GetSymbol c = (Inr symbol, c1) \<and> PeekChar (SkipWhite c1) = CHR ''('' \<longrightarrow>
      remaining (snd (GetChar (SkipWhite c1))) < remaining c) \<and>
   remaining (SkipWhite c) \<le> remaining c"
proof -
  have r_sum: "remaining (snd (GetChar (SkipWhite c1))) < remaining c"
    if "ParseProduct F c = (Inr left, c1)"
      "PeekChar (SkipWhite c1) = CHR ''+'' \<or> PeekChar (SkipWhite c1) = CHR ''-''"
  proof (rule GetChar_SkipWhite_remaining)
    show "cursor_moved c c1" using Parse_moved(2) [of c F] that(1) by simp
    show "PeekChar (SkipWhite c1) \<noteq> NUL" using that(2) by (auto simp: NUL_def)
  qed
  have r_product: "remaining (snd (GetChar (SkipWhite c1))) < remaining c"
    if "ParseTerm F c = (Inr left, c1)"
      "PeekChar (SkipWhite c1) = CHR ''*'' \<or> PeekChar (SkipWhite c1) = CHR ''/''"
  proof (rule GetChar_SkipWhite_remaining)
    show "cursor_moved c c1" using Parse_moved(3) [of c F] that(1) by simp
    show "PeekChar (SkipWhite c1) \<noteq> NUL" using that(2) by (auto simp: NUL_def)
  qed
  have r_term: "remaining (snd (GetChar (SkipWhite c))) < remaining c"
    if "PeekChar (SkipWhite c) = CHR ''(''"
    using that by (intro GetChar_SkipWhite_remaining cursor_moved_refl) (simp add: NUL_def)
  have r_ident: "remaining (snd (GetChar (SkipWhite c1))) < remaining c"
    if "GetSymbol c = (Inr symbol, c1)" "PeekChar (SkipWhite c1) = CHR ''(''"
  proof (rule GetChar_SkipWhite_remaining)
    show "cursor_moved c c1" using GetSymbol_moved [of c] that(1) by simp
    show "PeekChar (SkipWhite c1) \<noteq> NUL" using that(2) by (simp add: NUL_def)
  qed
  have r_white: "remaining (SkipWhite c) \<le> remaining c"
    by (simp add: SkipWhite_moved cursor_moved_remaining)
  show ?thesis
    using Parse_dom_total SkipWhite_dom_total push_back_digits_dom_total
      push_back_alnums_dom_total r_sum r_product r_term r_ident r_white
    by blast
qed

theorem evaluation_terminates_witness:
  "remaining (Calc exact_ops ''2*(3+sin(4))'') = 12 \<and>
   remaining (snd (GetChar (SkipWhite (snd (ParseTerm exact_ops (Calc exact_ops ''2*(3+sin(4))'')))))) = 10 \<and>
   remaining (snd (GetChar (SkipWhite ((Calc exact_ops ''2*(3+sin(4))'')\<lparr>m_currentPosition := 2\<rparr>)))) = 9 \<and>
   remaining (snd (GetChar (SkipWhite (snd (ParseProduct exact_ops
      ((Calc exact_ops ''2*(3+sin(4))'')\<lparr>m_currentPosition := 3\<rparr>)))))) = 7 \<and>
   remaining (snd (GetChar (SkipWhite (snd (GetSymbol
      ((Calc exact_ops ''2*(3+sin(4))'')\<lparr>m_currentPosition := 5\<rparr>)))))) = 3"
proof -
  let ?c = "Calc exact_ops ''2*(3+sin(4))''"
  have t: "ParseTerm exact_ops ?c = (Inr 2, ?c\<lparr>m_currentPosition := 1\<rparr>)"
    "PeekChar (SkipWhite (?c\<lparr>m_currentPosition := 1\<rparr>)) = CHR ''*''"
    "remaining ?c = 12"
    "remaining (snd (GetChar (SkipWhite (?c\<lparr>m_currentPosition := 1\<rparr>)))) = 10"
    by (simp_all add: run_simps exact_simps remaining_def)
  have p: "PeekChar (SkipWhite (?c\<lparr>m_currentPosition := 2\<rparr>)) = CHR ''(''"
    "remaining (snd (GetChar (SkipWhite (?c\<lparr>m_currentPosition := 2\<rparr>)))) = 9"
    by (simp_all add: run_simps exact_simps remaining_def)
  have s: "ParseProduct exact_ops (?c\<lparr>m_currentPosition := 3\<rparr>) = (Inr 3, ?c\<lparr>m_currentPosition := 4\<rparr>)"
    "PeekChar (SkipWhite (?c\<lparr>m_currentPosition := 4\<rparr>)) = CHR ''+''"
    "remaining (snd (GetChar (SkipWhite (?c\<lparr>m_currentPosition := 4\<rparr>)))) = 7"
    by (simp_all add: run_simps exact_simps remaining_def)
  have i: "GetSymbol (?c\<lparr>m_currentPosition := 5\<rparr>) = (Inr ''sin'', ?c\<lparr>m_currentPosition := 8\<rparr>)"
    "PeekChar (SkipWhite (?c\<lparr>m_currentPosition := 8\<rparr>)) = CHR ''(''"
    "remaining (snd (GetChar (SkipWhite (?c\<lparr>m_currentPosition := 8\<rparr>)))) = 3"
    by (simp_all add: run_simps exact_simps remaining_def)
  have "remaining (snd (GetChar (SkipWhite (?c\<lparr>m_currentPosition := 1\<rparr>)))) < remaining ?c"
    using evaluation_terminates [of exact_ops ?c "[]" 2 "?c\<lparr>m_currentPosition := 1\<rparr>"] t(1,2)
    by blast
  moreover have "remaining (snd (GetChar (SkipWhite (?c\<lparr>m_currentPosition := 2\<rparr>))))
      < remaining (?c\<lparr>m_currentPosition := 2\<rparr>)"
    using evaluation_terminates [of exact_ops "?c\<lparr>m_currentPosition := 2\<rparr>"] p(1)
    by blast
  moreover have "remaining (snd (GetChar (SkipWhite (?c\<lparr>m_currentPosition := 4\<rparr>))))
      < remaining (?c\<lparr>m_currentPosition := 3\<rparr>)"
    using evaluation_terminates [of exact_ops "?c\<lparr>m_currentPosition := 3\<rparr>" "[]" 3
        "?c\<lparr>m_currentPosition := 4\<rparr>"] s(1,2)
    by blast
  moreover have "remaining (snd (GetChar (SkipWhite (?c\<lparr>m_currentPosition := 8\<rparr>))))
      < remaining (?c\<lparr>m_currentPosition := 5\<rparr>)"
    using evaluation_terminates [of exact_ops "?c\<lparr>m_currentPosition := 5\<rparr>" "[]" 3
        "?c\<lparr>m_currentPosition := 8\<rparr>" "''sin''"] i(1,2)
    by blast
  ultimately show ?thesis using t p s i by simp
qed

subsection \<open>What a call leaves behind\<close>

lemma Evaluate_moved: "cursor_moved c (snd (Evaluate F c))"
  by (simp add: Evaluate_def ParseExpression_moved)

text \<open>
  C7. The only state of the program that a call of \<open>Evaluate\<close> can read or change is its
  object, and of the object a call changes nothing but \<open>m_currentPosition\<close>: the source and
  the two tables it leaves are the ones it found. So the object that a call leaves, on any
  source \<open>src'\<close>, given the source \<open>src\<close> and the cursor 0, is the object the constructor
  builds for \<open>src\<close>, and \<open>Evaluate\<close> on it gives the value or the exception (message and
  position) that \<open>EvaluateSource\<close> gives on \<open>src\<close>: the second of two calls on the same
  source gives what the first gave, and what a call on another source did before makes no
  difference. The cursor is where a call does leave state: called again on the object of
  a finished call on \<^verbatim>\<open>pi\<close>, without a fresh cursor, \<open>Evaluate\<close> throws where the first call
  returned.
\<close>

theorem evaluate_leaves_no_state:
  "snd (Evaluate F c) = c\<lparr>m_currentPosition := m_currentPosition (snd (Evaluate F c))\<rparr> \<and>
   Evaluate F ((snd (Evaluate F c))\<lparr>m_src := src, m_currentPosition := 0\<rparr>) =
     Evaluate F (c\<lparr>m_src := src, m_currentPosition := 0\<rparr>) \<and>
   (snd (Evaluate F (Calc F src')))\<lparr>m_src := src, m_currentPosition := 0\<rparr> = Calc F src \<and>
   fst (Evaluate F ((snd (Evaluate F (Calc F src')))\<lparr>m_src := src, m_currentPosition := 0\<rparr>)) =
     EvaluateSource F src \<and>
   fst (Evaluate F ((snd (Evaluate F (Calc F src)))\<lparr>m_currentPosition := 0\<rparr>)) =
     fst (Evaluate F (Calc F src)) \<and>
   fst (Evaluate F (snd (Evaluate F (Calc F ''pi'')))) \<noteq> fst (Evaluate F (Calc F ''pi''))"
proof -
  have left: "snd (Evaluate F c) = c\<lparr>m_currentPosition := m_currentPosition (snd (Evaluate F c))\<rparr>"
    for c :: "'a Calc"
    using Evaluate_moved [of c F] by (simp add: cursor_moved_def)
  have reset: "(snd (Evaluate F c))\<lparr>m_src := s, m_currentPosition := 0\<rparr> =
      c\<lparr>m_src := s, m_currentPosition := 0\<rparr>" for c :: "'a Calc" and s
  proof -
    obtain p where "snd (Evaluate F c) = c\<lparr>m_currentPosition := p\<rparr>"
      using left [of c] by blast
    then show ?thesis by simp
  qed
  have fresh: "(Calc F src')\<lparr>m_src := src, m_currentPosition := 0\<rparr> = Calc F src"
    by (simp add: Calc_def)
  have recycled: "(snd (Evaluate F (Calc F src')))\<lparr>m_src := src, m_currentPosition := 0\<rparr> =
      Calc F src"
    using reset [where c = "Calc F src'" and s = src] fresh by simp
  have same: "(snd (Evaluate F (Calc F src)))\<lparr>m_currentPosition := 0\<rparr> = Calc F src"
  proof -
    obtain p where "snd (Evaluate F (Calc F src)) = (Calc F src)\<lparr>m_currentPosition := p\<rparr>"
      using left [of "Calc F src"] by blast
    then show ?thesis by (simp add: Calc_def)
  qed
  have again: "fst (Evaluate F (snd (Evaluate F (Calc F ''pi'')))) \<noteq>
      fst (Evaluate F (Calc F ''pi''))"
    by (simp add: run_simps)
  show ?thesis
    using left [of c] reset [where c = c and s = src] recycled same again
    by (simp add: EvaluateSource_def)
qed

text \<open>
  The same on a numeral: after \<^verbatim>\<open>1\<close> has been evaluated, a second call on the same object,
  whose cursor is at the end, throws.
\<close>

lemma Evaluate_again_on_same_object:
  assumes "d_strtod F ''1'' = Some a"
  shows "fst (Evaluate F (Calc F ''1'')) = Inr a"
    and "fst (Evaluate F (snd (Evaluate F (Calc F ''1'')))) =
           Inl (ParseError ''Expected a number, symbol or parenthesized expression.'' 1)"
  using assms by (simp_all add: run_simps)

subsection \<open>Constants\<close>

lemma SkipWhite_not_space: "\<not> isspace (PeekChar (SkipWhite c))"
  by (induction c rule: SkipWhite.induct) (simp add: SkipWhite.simps)

lemma SkipWhite_idem: "SkipWhite (SkipWhite c) = SkipWhite c"
  using SkipWhite_not_space [of c] by (simp add: SkipWhite.simps [of "SkipWhite c"])

lemma ParseTerm_constant:
  assumes "IsFirstCharOfDouble (PeekChar (SkipWhite c))"
  shows "ParseTerm F c = GetConstant F c"
proof -
  from assms have "PeekChar (SkipWhite c) \<noteq> CHR ''(''"
    by (auto simp: IsFirstCharOfDouble_def isdigit_def)
  with assms show ?thesis
    by (simp add: ParseTerm.simps [of F c] Let_def GetConstant_def SkipWhite_idem)
qed

lemma Evaluate_propagates:
  assumes "ParseTerm F c = (Inl e, c')"
  shows "Evaluate F c = (Inl e, c')"
  using assms
  by (simp add: Evaluate_def ParseExpression_def ParseSum.simps [of F c]
      ParseProduct.simps [of F c])

text \<open>What the scanning statements append to the string.\<close>

lemma push_back_digits_prefix: "\<exists>t. fst (push_back_digits sc) = fst sc @ t"
proof (induction sc rule: push_back_digits.induct)
  case (1 sc)
  show ?case
  proof (cases "isdigit (PeekChar (snd sc))")
    case True
    with 1 obtain t where "fst (push_back_digits sc) = fst (push_back_GetChar sc) @ t"
      by (auto simp: push_back_digits.simps [of sc])
    then show ?thesis by (simp add: push_back_GetChar_def)
  next
    case False
    then show ?thesis by (simp add: push_back_digits.simps [of sc])
  qed
qed

lemma GetSign_prefix: "\<exists>t. fst (GetSign sc) = fst sc @ t"
  by (simp add: GetSign_def push_back_GetChar_def)

lemma GetExponent_prefix:
  assumes "GetExponent sc = (Inr s, c)"
  shows "s = fst sc \<or> (\<exists>t. s = fst sc @ CHR ''e'' # t) \<or> (\<exists>t. s = fst sc @ CHR ''E'' # t)"
proof (cases "PeekChar (snd sc) = CHR ''e'' \<or> PeekChar (snd sc) = CHR ''E''")
  case True
  let ?sc1 = "push_back_GetChar sc"
  obtain t where t: "fst (GetSign ?sc1) = fst ?sc1 @ t"
    using GetSign_prefix by blast
  obtain u where u: "fst (push_back_digits (GetSign ?sc1)) = fst (GetSign ?sc1) @ u"
    using push_back_digits_prefix by blast
  have "fst ?sc1 = fst sc @ [PeekChar (snd sc)]"
    by (simp add: push_back_GetChar_def GetChar_def Let_def)
  with t u have "fst (push_back_digits (GetSign ?sc1)) = fst sc @ PeekChar (snd sc) # (t @ u)"
    by simp
  moreover from assms True have "s = fst (push_back_digits (GetSign ?sc1))"
    by (auto simp: GetExponent_def Let_def split: if_splits)
  ultimately show ?thesis using True by auto
next
  case False
  with assms show ?thesis by (simp add: GetExponent_def)
qed

lemma GetExponent_error:
  assumes "GetExponent sc = (Inl e, c)"
  shows "e = ParseError ''Expected exponent in floating point constant.'' (m_currentPosition c)"
  using assms by (auto simp: GetExponent_def Let_def split: if_splits)


lemma scanned_init: "scanned (m_currentPosition c) ([], c)"
  by (simp add: scanned_def)

lemma scanned_push_back_GetChar:
  assumes "scanned start sc" and "PeekChar (snd sc) \<noteq> NUL"
  shows "scanned start (push_back_GetChar sc)"
proof -
  let ?c = "snd sc" and ?n = "length (fst sc)"
  from assms(2) have lt: "m_currentPosition ?c < length (m_src ?c)"
    and peek: "PeekChar ?c = m_src ?c ! m_currentPosition ?c"
    by (auto simp: PeekChar_def split: if_splits)
  from assms(1) have pos: "m_currentPosition ?c = start + ?n"
    and str: "fst sc = take ?n (drop start (m_src ?c))"
    by (auto simp: scanned_def)
  from lt pos have "?n < length (drop start (m_src ?c))" by simp
  then have "take (Suc ?n) (drop start (m_src ?c)) =
      take ?n (drop start (m_src ?c)) @ [drop start (m_src ?c) ! ?n]"
    by (rule take_Suc_conv_app_nth)
  moreover have "drop start (m_src ?c) ! ?n = PeekChar ?c"
    using lt pos peek by simp
  ultimately have "take (Suc ?n) (drop start (m_src ?c)) = fst sc @ [PeekChar ?c]"
    using str by simp
  with assms(2) pos show ?thesis
    by (simp add: scanned_def push_back_GetChar_def GetChar_def Let_def)
qed

lemma scanned_push_back_digits:
  "scanned start sc \<Longrightarrow> scanned start (push_back_digits sc)"
proof (induction sc rule: push_back_digits.induct)
  case (1 sc)
  show ?case
  proof (cases "isdigit (PeekChar (snd sc))")
    case True
    then have "scanned start (push_back_GetChar sc)"
      using "1.prems" by (simp add: scanned_push_back_GetChar isdigit_not_NUL)
    with True "1.IH" show ?thesis
      by (simp add: push_back_digits.simps [of sc])
  next
    case False
    with "1.prems" show ?thesis by (simp add: push_back_digits.simps [of sc])
  qed
qed

lemma scanned_GetSign: "scanned start sc \<Longrightarrow> scanned start (GetSign sc)"
  by (auto simp: GetSign_def NUL_def intro!: scanned_push_back_GetChar)

lemma scanned_GetFraction: "scanned start sc \<Longrightarrow> scanned start (GetFraction sc)"
  by (auto simp: GetFraction_def NUL_def intro!: scanned_push_back_digits scanned_push_back_GetChar)

lemma scanned_GetMantissa: "scanned (m_currentPosition c) (GetMantissa c)"
  unfolding GetMantissa_def
  by (intro scanned_GetFraction scanned_push_back_digits scanned_GetSign scanned_init)

lemma scanned_GetExponent:
  assumes "scanned start sc" and "GetExponent sc = (Inr s, c)"
  shows "scanned start (s, c)"
proof (cases "PeekChar (snd sc) = CHR ''e'' \<or> PeekChar (snd sc) = CHR ''E''")
  case True
  then have "PeekChar (snd sc) \<noteq> NUL" by (auto simp: NUL_def)
  then have "scanned start (push_back_digits (GetSign (push_back_GetChar sc)))"
    using assms(1)
    by (intro scanned_push_back_digits scanned_GetSign scanned_push_back_GetChar)
  moreover from assms(2) True
  have "(s, c) = push_back_digits (GetSign (push_back_GetChar sc))"
    by (auto simp: GetExponent_def Let_def split: if_splits)
  ultimately show ?thesis by simp
next
  case False
  with assms have "(s, c) = sc" by (cases sc) (simp add: GetExponent_def)
  with assms(1) show ?thesis by simp
qed

lemma GetMantissa_nonempty:
  assumes "IsFirstCharOfDouble (PeekChar c)"
  shows "fst (GetMantissa c) \<noteq> []"
proof -
  let ?a = "GetSign ([], c)"
  let ?b = "push_back_digits ?a"
  obtain t where t: "fst ?b = fst ?a @ t"
    using push_back_digits_prefix by blast
  consider (sign) "PeekChar c = CHR ''+'' \<or> PeekChar c = CHR ''-''"
    | (digit) "isdigit (PeekChar c)"
    | (point) "PeekChar c = CHR ''.''"
    using assms by (auto simp: IsFirstCharOfDouble_def)
  then have "fst ?b \<noteq> [] \<or> (?b = ([], c) \<and> PeekChar c = CHR ''.'')"
  proof cases
    case sign
    then have "fst ?a \<noteq> []" by (simp add: GetSign_def push_back_GetChar_def)
    with t show ?thesis by simp
  next
    case digit
    then have "?a = ([], c)" by (auto simp: GetSign_def isdigit_def)
    moreover obtain u where
      "fst (push_back_digits (push_back_GetChar ([], c))) = fst (push_back_GetChar ([], c)) @ u"
      using push_back_digits_prefix by blast
    ultimately show ?thesis
      using digit by (simp add: push_back_digits.simps [of "([], c)"] push_back_GetChar_def)
  next
    case point
    then have "?a = ([], c)" by (simp add: GetSign_def)
    with point show ?thesis
      by (simp add: push_back_digits.simps [of "([], c)"] isdigit_def)
  qed
  then show ?thesis
  proof
    assume ne: "fst ?b \<noteq> []"
    obtain u where "fst (push_back_digits (push_back_GetChar ?b)) = fst (push_back_GetChar ?b) @ u"
      using push_back_digits_prefix by blast
    with ne show ?thesis
      by (simp add: GetMantissa_def GetFraction_def push_back_GetChar_def)
  next
    assume "?b = ([], c) \<and> PeekChar c = CHR ''.''"
    moreover obtain u where
      "fst (push_back_digits (push_back_GetChar ([], c))) = fst (push_back_GetChar ([], c)) @ u"
      using push_back_digits_prefix by blast
    ultimately show ?thesis
      by (simp add: GetMantissa_def GetFraction_def push_back_GetChar_def)
  qed
qed

lemma GetConstant_invalid:
  assumes "GetExponent (GetMantissa (SkipWhite c)) = (Inr s, c1)"
    and "stod F s = Inl invalid_argument"
  shows "GetConstant F c = (Inl (ParseError ''Invalid float.'' (m_currentPosition c1)), c1)"
  using assms by (simp add: GetConstant_def ConvertConstant_def)

lemma has_mantissa_digit_Cons:
  "\<not> isdigit c \<Longrightarrow> c \<noteq> CHR ''.'' \<Longrightarrow> \<not> has_mantissa_digit (c # t)"
  by (cases t) simp_all

lemma no_mantissa_digit:
  assumes "m \<in> {''+'', ''-'', ''+.'', ''-.''}"
    and "s = m \<or> (\<exists>t. s = m @ CHR ''e'' # t) \<or> (\<exists>t. s = m @ CHR ''E'' # t)"
  shows "\<not> has_mantissa_digit (strip_sign s)"
proof -
  from assms(1) consider "m = ''+''" | "m = ''-''" | "m = ''+.''" | "m = ''-.''"
    by blast
  then show ?thesis
  proof cases
    case 1
    with assms(2) show ?thesis
      by (elim disjE exE) (simp_all add: strip_sign_def has_mantissa_digit_Cons isdigit_def)
  next
    case 2
    with assms(2) show ?thesis
      by (elim disjE exE) (simp_all add: strip_sign_def has_mantissa_digit_Cons isdigit_def)
  next
    case 3
    with assms(2) show ?thesis
      by (elim disjE exE) (simp_all add: strip_sign_def has_mantissa_digit_Cons isdigit_def)
  next
    case 4
    with assms(2) show ?thesis
      by (elim disjE exE) (simp_all add: strip_sign_def has_mantissa_digit_Cons isdigit_def)
  qed
qed

text \<open>
  C4. A \<^verbatim>\<open>+\<close> or \<^verbatim>\<open>-\<close> where a term starts sends \<open>ParseTerm\<close> to \<open>GetConstant\<close> and nowhere
  else: the sign is the sign of a numeral. When the mantissa that \<open>GetConstant\<close> then scans
  is the sign alone, or the sign and a point (both digit runs empty), evaluation throws a
  \<open>ParseError\<close>: \<^verbatim>\<open>Invalid float.\<close>, or \<^verbatim>\<open>Expected exponent in floating point constant.\<close>
  when an \<^verbatim>\<open>e\<close> with no digits follows. So \<^verbatim>\<open>1+-2\<close> is the sum of the constants \<^verbatim>\<open>1\<close> and
  \<^verbatim>\<open>-2\<close>; \<^verbatim>\<open>-\<close> and \<^verbatim>\<open>-.\<close> throw, and so do \<^verbatim>\<open>-(1)\<close> and \<^verbatim>\<open>-pi\<close>, where a unary minus
  would have had an operand.
\<close>

theorem unary_sign_only_in_constant:
  "(PeekChar (SkipWhite c) = CHR ''+'' \<or> PeekChar (SkipWhite c) = CHR ''-'' \<longrightarrow>
      ParseTerm F c = GetConstant F c \<and>
      (fst (GetMantissa (SkipWhite c)) \<in> {''+'', ''-'', ''+.'', ''-.''} \<longrightarrow>
         (\<exists>p. fst (Evaluate F c) = Inl (ParseError ''Invalid float.'' p) \<or>
              fst (Evaluate F c) =
                Inl (ParseError ''Expected exponent in floating point constant.'' p)))) \<and>
   (d_strtod F ''1'' = Some a \<and> d_strtod F ''-2'' = Some b \<longrightarrow>
      EvaluateSource F ''1+-2'' = Inr (d_add F a b)) \<and>
   EvaluateSource F ''-'' = Inl (ParseError ''Invalid float.'' 1) \<and>
   EvaluateSource F ''-.'' = Inl (ParseError ''Invalid float.'' 2) \<and>
   EvaluateSource F ''-(1)'' = Inl (ParseError ''Invalid float.'' 1) \<and>
   EvaluateSource F ''-pi'' = Inl (ParseError ''Invalid float.'' 1)"
proof (intro conjI impI)
  assume sign: "PeekChar (SkipWhite c) = CHR ''+'' \<or> PeekChar (SkipWhite c) = CHR ''-''"
  then have first: "IsFirstCharOfDouble (PeekChar (SkipWhite c))"
    by (auto simp: IsFirstCharOfDouble_def)
  then show term_is_constant: "ParseTerm F c = GetConstant F c"
    by (rule ParseTerm_constant)
  assume empty: "fst (GetMantissa (SkipWhite c)) \<in> {''+'', ''-'', ''+.'', ''-.''}"
  let ?sc = "GetMantissa (SkipWhite c)"
  obtain r c1 where r: "GetExponent ?sc = (r, c1)"
    by (cases "GetExponent ?sc") auto
  show "\<exists>p. fst (Evaluate F c) = Inl (ParseError ''Invalid float.'' p) \<or>
            fst (Evaluate F c) = Inl (ParseError ''Expected exponent in floating point constant.'' p)"
  proof (cases r)
    case (Inl e)
    with r have "e = ParseError ''Expected exponent in floating point constant.''
        (m_currentPosition c1)"
      using GetExponent_error by blast
    with r Inl have "GetConstant F c = (Inl (ParseError
        ''Expected exponent in floating point constant.'' (m_currentPosition c1)), c1)"
      by (simp add: GetConstant_def)
    then have "Evaluate F c = (Inl (ParseError
        ''Expected exponent in floating point constant.'' (m_currentPosition c1)), c1)"
      using term_is_constant Evaluate_propagates [of F c] by simp
    then show ?thesis by auto
  next
    case (Inr s)
    with r GetExponent_prefix [of ?sc s c1]
    have "s = fst ?sc \<or> (\<exists>t. s = fst ?sc @ CHR ''e'' # t) \<or> (\<exists>t. s = fst ?sc @ CHR ''E'' # t)"
      by simp
    with empty have "\<not> has_mantissa_digit (strip_sign s)"
      by (rule no_mantissa_digit)
    then have "stod F s = Inl invalid_argument"
      by (simp add: stod_def)
    with r Inr have "GetConstant F c = (Inl (ParseError ''Invalid float.'' (m_currentPosition c1)), c1)"
      by (simp add: GetConstant_invalid)
    then have "Evaluate F c = (Inl (ParseError ''Invalid float.'' (m_currentPosition c1)), c1)"
      using term_is_constant Evaluate_propagates [of F c] by simp
    then show ?thesis by auto
  qed
next
  assume "d_strtod F ''1'' = Some a \<and> d_strtod F ''-2'' = Some b"
  then show "EvaluateSource F ''1+-2'' = Inr (d_add F a b)"
    by (simp add: run_simps)
next
  show "EvaluateSource F ''-'' = Inl (ParseError ''Invalid float.'' 1)"
    by (simp add: run_simps)
next
  show "EvaluateSource F ''-.'' = Inl (ParseError ''Invalid float.'' 2)"
    by (simp add: run_simps)
next
  show "EvaluateSource F ''-(1)'' = Inl (ParseError ''Invalid float.'' 1)"
    by (simp add: run_simps)
next
  show "EvaluateSource F ''-pi'' = Inl (ParseError ''Invalid float.'' 1)"
    by (simp add: run_simps)
qed

theorem unary_sign_only_in_constant_witness:
  "PeekChar (SkipWhite (Calc exact_ops '' +.e'')) = CHR ''+'' \<and>
   fst (GetMantissa (SkipWhite (Calc exact_ops '' +.e''))) = ''+.'' \<and>
   fst (Evaluate exact_ops (Calc exact_ops '' +.e'')) =
     Inl (ParseError ''Expected exponent in floating point constant.'' 4) \<and>
   PeekChar (SkipWhite (Calc exact_ops ''- 1'')) = CHR ''-'' \<and>
   fst (GetMantissa (SkipWhite (Calc exact_ops ''- 1''))) = ''-'' \<and>
   fst (Evaluate exact_ops (Calc exact_ops ''- 1'')) = Inl (ParseError ''Invalid float.'' 1) \<and>
   EvaluateSource exact_ops ''1+-2'' = Inr (- 1)"
proof -
  let ?c = "Calc exact_ops '' +.e''" and ?d = "Calc exact_ops ''- 1''"
  have c: "PeekChar (SkipWhite ?c) = CHR ''+''" "fst (GetMantissa (SkipWhite ?c)) = ''+.''"
    "fst (Evaluate exact_ops ?c) =
       Inl (ParseError ''Expected exponent in floating point constant.'' 4)"
    by (simp_all add: run_simps exact_simps)
  have d: "PeekChar (SkipWhite ?d) = CHR ''-''" "fst (GetMantissa (SkipWhite ?d)) = ''-''"
    "fst (Evaluate exact_ops ?d) = Inl (ParseError ''Invalid float.'' 1)"
    by (simp_all add: run_simps exact_simps)
  have lits: "d_strtod exact_ops ''1'' = Some 1 \<and> d_strtod exact_ops ''-2'' = Some (- 2)"
    by (simp add: run_simps exact_simps)
  have "EvaluateSource exact_ops ''1+-2'' = Inr (d_add exact_ops 1 (- 2))"
    using unary_sign_only_in_constant [of ?c exact_ops 1 "- 2"] lits by blast
  moreover have "\<exists>p. fst (Evaluate exact_ops ?c) = Inl (ParseError ''Invalid float.'' p) \<or>
      fst (Evaluate exact_ops ?c) =
        Inl (ParseError ''Expected exponent in floating point constant.'' p)"
    using unary_sign_only_in_constant [of ?c exact_ops 1 "- 2"] c(1,2) by simp
  moreover have "\<exists>p. fst (Evaluate exact_ops ?d) = Inl (ParseError ''Invalid float.'' p) \<or>
      fst (Evaluate exact_ops ?d) =
        Inl (ParseError ''Expected exponent in floating point constant.'' p)"
    using unary_sign_only_in_constant [of ?d exact_ops 1 "- 2"] d(1,2) by simp
  ultimately show ?thesis
    using c d by (simp add: exact_ops_sel)
qed

text \<open>
  C5, as the code has it. When the numeral that starts a term has been scanned and \<^verbatim>\<open>stod\<close>
  throws \<^verbatim>\<open>std::invalid_argument\<close> on its text \<open>s\<close>, evaluation throws \<^verbatim>\<open>Invalid float.\<close> with
  the position of the cursor at that moment: the position where the numeral starts plus the
  length of \<open>s\<close>, the text from that start to the cursor. The text is not empty, so the
  position reported is never the one where the numeral starts: for \<^verbatim>\<open>-\<close>, \<^verbatim>\<open>+\<close> and \<^verbatim>\<open>.\<close> it
  is 1, for \<^verbatim>\<open>2 * -.\<close> it is 6.
\<close>

theorem invalid_float_position:
  "(IsFirstCharOfDouble (PeekChar (SkipWhite c)) \<and>
    GetExponent (GetMantissa (SkipWhite c)) = (Inr s, c1) \<and>
    stod F s = Inl invalid_argument \<longrightarrow>
      Evaluate F c = (Inl (ParseError ''Invalid float.'' (m_currentPosition c1)), c1) \<and>
      m_currentPosition c1 = m_currentPosition (SkipWhite c) + length s \<and>
      s = take (length s) (drop (m_currentPosition (SkipWhite c)) (m_src c)) \<and>
      0 < length s) \<and>
   EvaluateSource F ''-'' = Inl (ParseError ''Invalid float.'' 1) \<and>
   EvaluateSource F ''+'' = Inl (ParseError ''Invalid float.'' 1) \<and>
   EvaluateSource F ''.'' = Inl (ParseError ''Invalid float.'' 1) \<and>
   (d_strtod F ''2'' = Some a \<longrightarrow>
      EvaluateSource F ''2 * -.'' = Inl (ParseError ''Invalid float.'' 6))"
proof (intro conjI impI; (elim conjE)?)
  assume first: "IsFirstCharOfDouble (PeekChar (SkipWhite c))"
    and scan: "GetExponent (GetMantissa (SkipWhite c)) = (Inr s, c1)"
    and invalid: "stod F s = Inl invalid_argument"
  let ?c0 = "SkipWhite c"
  from scan invalid
  have "GetConstant F c = (Inl (ParseError ''Invalid float.'' (m_currentPosition c1)), c1)"
    by (rule GetConstant_invalid)
  then show "Evaluate F c = (Inl (ParseError ''Invalid float.'' (m_currentPosition c1)), c1)"
    using ParseTerm_constant [OF first, of F] Evaluate_propagates [of F c] by simp
  have sc: "scanned (m_currentPosition ?c0) (s, c1)"
    using scanned_GetMantissa scan by (rule scanned_GetExponent)
  then show "m_currentPosition c1 = m_currentPosition ?c0 + length s"
    by (simp add: scanned_def)
  have "cursor_moved ?c0 (snd (GetExponent (GetMantissa ?c0)))"
    using GetMantissa_moved GetExponent_moved cursor_moved_trans by blast
  with scan have "cursor_moved c c1"
    using SkipWhite_moved [of c] cursor_moved_trans by fastforce
  then have "c1 = c\<lparr>m_currentPosition := m_currentPosition c1\<rparr>"
    by (simp add: cursor_moved_def)
  then have "m_src c1 = m_src (c\<lparr>m_currentPosition := m_currentPosition c1\<rparr>)"
    by simp
  then have "m_src c1 = m_src c"
    by simp
  with sc show "s = take (length s) (drop (m_currentPosition ?c0) (m_src c))"
    by (simp add: scanned_def)
  have "fst (GetMantissa ?c0) \<noteq> []"
    using first by (rule GetMantissa_nonempty)
  with GetExponent_prefix [OF scan] show "0 < length s"
    by auto
next
  show "EvaluateSource F ''-'' = Inl (ParseError ''Invalid float.'' 1)"
    by (simp add: run_simps)
next
  show "EvaluateSource F ''+'' = Inl (ParseError ''Invalid float.'' 1)"
    by (simp add: run_simps)
next
  show "EvaluateSource F ''.'' = Inl (ParseError ''Invalid float.'' 1)"
    by (simp add: run_simps)
next
  assume "d_strtod F ''2'' = Some a"
  then show "EvaluateSource F ''2 * -.'' = Inl (ParseError ''Invalid float.'' 6)"
    by (simp add: run_simps)
qed

theorem invalid_float_position_witness:
  "IsFirstCharOfDouble (PeekChar (SkipWhite (Calc exact_ops ''  -.x''))) \<and>
   m_currentPosition (SkipWhite (Calc exact_ops ''  -.x'')) = 2 \<and>
   GetExponent (GetMantissa (SkipWhite (Calc exact_ops ''  -.x''))) =
     (Inr ''-.'', (Calc exact_ops ''  -.x'')\<lparr>m_currentPosition := 4\<rparr>) \<and>
   stod exact_ops ''-.'' = Inl invalid_argument \<and>
   Evaluate exact_ops (Calc exact_ops ''  -.x'') =
     (Inl (ParseError ''Invalid float.'' 4), (Calc exact_ops ''  -.x'')\<lparr>m_currentPosition := 4\<rparr>) \<and>
   EvaluateSource exact_ops ''2 * -.'' = Inl (ParseError ''Invalid float.'' 6)"
proof -
  let ?c = "Calc exact_ops ''  -.x''"
  have h: "IsFirstCharOfDouble (PeekChar (SkipWhite ?c))"
    "GetExponent (GetMantissa (SkipWhite ?c)) = (Inr ''-.'', ?c\<lparr>m_currentPosition := 4\<rparr>)"
    "stod exact_ops ''-.'' = Inl invalid_argument"
    by (simp_all add: run_simps exact_simps)
  have p: "m_currentPosition (SkipWhite ?c) = 2"
    by (simp add: run_simps)
  have l: "d_strtod exact_ops ''2'' = Some 2"
    by (simp add: run_simps exact_simps)
  have "Evaluate exact_ops ?c =
     (Inl (ParseError ''Invalid float.'' (m_currentPosition (?c\<lparr>m_currentPosition := 4\<rparr>))),
      ?c\<lparr>m_currentPosition := 4\<rparr>)"
    using invalid_float_position [of ?c "''-.''" "?c\<lparr>m_currentPosition := 4\<rparr>" exact_ops 2] h
    by blast
  moreover have "EvaluateSource exact_ops ''2 * -.'' = Inl (ParseError ''Invalid float.'' 6)"
    using invalid_float_position [of ?c "''-.''" "?c\<lparr>m_currentPosition := 4\<rparr>" exact_ops 2] l
    by blast
  ultimately show ?thesis using h p by simp
qed

text \<open>
  The claim as the spec states it, that the position reported is the one where the
  literal starts (0 for \<^verbatim>\<open>-\<close>), fails: the literal \<^verbatim>\<open>-\<close> starts at 0 and the position
  reported is 1.
\<close>

theorem invalid_float_position_counterexample:
  "m_currentPosition (SkipWhite (Calc exact_ops ''-'')) = 0 \<and>
   EvaluateSource exact_ops ''-'' = Inl (ParseError ''Invalid float.'' 1) \<and>
   EvaluateSource exact_ops ''-'' \<noteq> Inl (ParseError ''Invalid float.'' 0)"
  by (simp add: run_simps)

text \<open>
  C6. When the mantissa has been scanned and an \<^verbatim>\<open>e\<close> or \<^verbatim>\<open>E\<close> follows it, and after that
  character and an optional sign the next character is not a digit, \<open>GetConstant\<close> throws
  \<^verbatim>\<open>Expected exponent in floating point constant.\<close> with the position of that next
  character, before \<^verbatim>\<open>stod\<close> is reached, and so does \<open>Evaluate\<close> when the numeral starts the
  first term. So \<^verbatim>\<open>1e\<close> throws it with position 2, and \<^verbatim>\<open>+e\<close>, whose mantissa \<^verbatim>\<open>stod\<close> would
  have refused, throws it too.
\<close>

theorem missing_exponent_digits:
  "((PeekChar (snd (GetMantissa (SkipWhite c))) = CHR ''e'' \<or>
     PeekChar (snd (GetMantissa (SkipWhite c))) = CHR ''E'') \<and>
    c' = snd (GetSign (push_back_GetChar (GetMantissa (SkipWhite c)))) \<and>
    \<not> isdigit (PeekChar c') \<longrightarrow>
      GetConstant F c =
        (Inl (ParseError ''Expected exponent in floating point constant.''
                         (m_currentPosition c')), c') \<and>
      (IsFirstCharOfDouble (PeekChar (SkipWhite c)) \<longrightarrow>
         Evaluate F c =
           (Inl (ParseError ''Expected exponent in floating point constant.''
                            (m_currentPosition c')), c'))) \<and>
   EvaluateSource F ''1e'' =
     Inl (ParseError ''Expected exponent in floating point constant.'' 2) \<and>
   EvaluateSource F ''+e'' =
     Inl (ParseError ''Expected exponent in floating point constant.'' 2) \<and>
   EvaluateSource F ''(2.5E-)'' =
     Inl (ParseError ''Expected exponent in floating point constant.'' 6)"
proof (intro conjI impI; (elim conjE)?)
  assume e: "PeekChar (snd (GetMantissa (SkipWhite c))) = CHR ''e'' \<or>
      PeekChar (snd (GetMantissa (SkipWhite c))) = CHR ''E''"
    and c': "c' = snd (GetSign (push_back_GetChar (GetMantissa (SkipWhite c))))"
    and nodigit: "\<not> isdigit (PeekChar c')"
  then have "GetExponent (GetMantissa (SkipWhite c)) =
      (Inl (ParseError ''Expected exponent in floating point constant.''
                       (m_currentPosition c')), c')"
    by (simp add: GetExponent_def Let_def)
  then show g: "GetConstant F c =
        (Inl (ParseError ''Expected exponent in floating point constant.''
                         (m_currentPosition c')), c')"
    by (simp add: GetConstant_def)
  assume "IsFirstCharOfDouble (PeekChar (SkipWhite c))"
  then show "Evaluate F c =
           (Inl (ParseError ''Expected exponent in floating point constant.''
                            (m_currentPosition c')), c')"
    using g ParseTerm_constant [of c F] Evaluate_propagates [of F c] by simp
next
  show "EvaluateSource F ''1e'' =
     Inl (ParseError ''Expected exponent in floating point constant.'' 2)"
    by (simp add: run_simps)
next
  show "EvaluateSource F ''+e'' =
     Inl (ParseError ''Expected exponent in floating point constant.'' 2)"
    by (simp add: run_simps)
next
  show "EvaluateSource F ''(2.5E-)'' =
     Inl (ParseError ''Expected exponent in floating point constant.'' 6)"
    by (simp add: run_simps)
qed

theorem missing_exponent_digits_witness:
  "PeekChar (snd (GetMantissa (SkipWhite (Calc exact_ops '' 12.e+ 3'')))) = CHR ''e'' \<and>
   snd (GetSign (push_back_GetChar (GetMantissa (SkipWhite (Calc exact_ops '' 12.e+ 3''))))) =
     (Calc exact_ops '' 12.e+ 3'')\<lparr>m_currentPosition := 6\<rparr> \<and>
   \<not> isdigit (PeekChar ((Calc exact_ops '' 12.e+ 3'')\<lparr>m_currentPosition := 6\<rparr>)) \<and>
   IsFirstCharOfDouble (PeekChar (SkipWhite (Calc exact_ops '' 12.e+ 3''))) \<and>
   Evaluate exact_ops (Calc exact_ops '' 12.e+ 3'') =
     (Inl (ParseError ''Expected exponent in floating point constant.'' 6),
      (Calc exact_ops '' 12.e+ 3'')\<lparr>m_currentPosition := 6\<rparr>)"
proof -
  let ?c = "Calc exact_ops '' 12.e+ 3''"
  have h: "PeekChar (snd (GetMantissa (SkipWhite ?c))) = CHR ''e''"
    "snd (GetSign (push_back_GetChar (GetMantissa (SkipWhite ?c)))) = ?c\<lparr>m_currentPosition := 6\<rparr>"
    "\<not> isdigit (PeekChar (?c\<lparr>m_currentPosition := 6\<rparr>))"
    "IsFirstCharOfDouble (PeekChar (SkipWhite ?c))"
    by (simp_all add: run_simps)
  have "Evaluate exact_ops ?c =
     (Inl (ParseError ''Expected exponent in floating point constant.''
        (m_currentPosition (?c\<lparr>m_currentPosition := 6\<rparr>))),
      ?c\<lparr>m_currentPosition := 6\<rparr>)"
    using missing_exponent_digits [of ?c "?c\<lparr>m_currentPosition := 6\<rparr>" exact_ops] h
    by simp
  then show ?thesis using h by simp
qed

subsection \<open>A NUL character in the source\<close>

lemma cursor_moved_range:
  assumes "cursor_moved c c'" and "cursor_in_range c"
  shows "cursor_in_range c'"
proof -
  from assms(2) have "m_currentPosition c \<le> length (m_src c)"
    by (simp add: cursor_in_range_def)
  with assms(1) have "m_currentPosition c' \<le> length (m_src c')"
    by (rule cursor_moved_in_range [THEN conjunct2, THEN conjunct2])
  then show ?thesis by (simp add: cursor_in_range_def)
qed

lemma after_NUL_fields [simp]:
  "m_currentPosition (after_NUL rest c) = m_currentPosition c"
  "m_constants (after_NUL rest c) = m_constants c"
  "m_functions (after_NUL rest c) = m_functions c"
  by (simp_all add: after_NUL_def)

lemma PeekChar_after_NUL:
  "cursor_in_range c \<Longrightarrow> PeekChar (after_NUL rest c) = PeekChar c"
  by (auto simp: PeekChar_def after_NUL_def cursor_in_range_def nth_append)

lemma GetChar_after_NUL:
  "cursor_in_range c \<Longrightarrow> GetChar (after_NUL rest c) = apsnd (after_NUL rest) (GetChar c)"
  by (simp add: GetChar_def PeekChar_after_NUL Let_def) (simp add: after_NUL_def)

lemma GetChar_range: "cursor_in_range c \<Longrightarrow> cursor_in_range (snd (GetChar c))"
  using GetChar_moved cursor_moved_range by blast

lemma SkipWhite_after_NUL:
  "cursor_in_range c \<Longrightarrow> SkipWhite (after_NUL rest c) = after_NUL rest (SkipWhite c)"
proof (induction c rule: SkipWhite.induct)
  case (1 c)
  show ?case
  proof (cases "isspace (PeekChar c)")
    case True
    with 1 show ?thesis
      by (simp add: SkipWhite.simps [of c] SkipWhite.simps [of "after_NUL rest c"]
          PeekChar_after_NUL GetChar_after_NUL GetChar_range)
  next
    case False
    with 1 show ?thesis
      by (simp add: SkipWhite.simps [of c] SkipWhite.simps [of "after_NUL rest c"]
          PeekChar_after_NUL)
  qed
qed

lemma SkipWhite_range: "cursor_in_range c \<Longrightarrow> cursor_in_range (SkipWhite c)"
  using SkipWhite_moved cursor_moved_range by blast

lemma push_back_GetChar_after_NUL:
  "cursor_in_range (snd sc) \<Longrightarrow>
   push_back_GetChar (apsnd (after_NUL rest) sc) = apsnd (after_NUL rest) (push_back_GetChar sc)"
  by (cases sc) (simp add: push_back_GetChar_def GetChar_after_NUL)

lemma push_back_GetChar_range:
  "cursor_in_range (snd sc) \<Longrightarrow> cursor_in_range (snd (push_back_GetChar sc))"
  using push_back_GetChar_moved cursor_moved_range by blast

lemma push_back_digits_after_NUL:
  "cursor_in_range (snd sc) \<Longrightarrow>
   push_back_digits (apsnd (after_NUL rest) sc) = apsnd (after_NUL rest) (push_back_digits sc)"
proof (induction sc rule: push_back_digits.induct)
  case (1 sc)
  show ?case
  proof (cases "isdigit (PeekChar (snd sc))")
    case True
    with 1 show ?thesis
      by (simp add: push_back_digits.simps [of sc]
          push_back_digits.simps [of "apsnd (after_NUL rest) sc"]
          PeekChar_after_NUL push_back_GetChar_after_NUL push_back_GetChar_range)
  next
    case False
    with 1 show ?thesis
      by (simp add: push_back_digits.simps [of sc]
          push_back_digits.simps [of "apsnd (after_NUL rest) sc"] PeekChar_after_NUL)
  qed
qed

lemma push_back_digits_range:
  "cursor_in_range (snd sc) \<Longrightarrow> cursor_in_range (snd (push_back_digits sc))"
  using push_back_digits_moved cursor_moved_range by blast

lemma push_back_alnums_after_NUL:
  "cursor_in_range (snd sc) \<Longrightarrow>
   push_back_alnums (apsnd (after_NUL rest) sc) = apsnd (after_NUL rest) (push_back_alnums sc)"
proof (induction sc rule: push_back_alnums.induct)
  case (1 sc)
  show ?case
  proof (cases "isalnum (PeekChar (snd sc))")
    case True
    with 1 show ?thesis
      by (simp add: push_back_alnums.simps [of sc]
          push_back_alnums.simps [of "apsnd (after_NUL rest) sc"]
          PeekChar_after_NUL push_back_GetChar_after_NUL push_back_GetChar_range)
  next
    case False
    with 1 show ?thesis
      by (simp add: push_back_alnums.simps [of sc]
          push_back_alnums.simps [of "apsnd (after_NUL rest) sc"] PeekChar_after_NUL)
  qed
qed

lemma Consume_after_NUL:
  "cursor_in_range c \<Longrightarrow> Consume ch (after_NUL rest c) = apsnd (after_NUL rest) (Consume ch c)"
  by (simp add: Consume_def PeekChar_after_NUL GetChar_after_NUL)

lemma GetSymbol_after_NUL:
  assumes "cursor_in_range c"
  shows "GetSymbol (after_NUL rest c) = apsnd (after_NUL rest) (GetSymbol c)"
proof -
  have "push_back_alnums ([], after_NUL rest (SkipWhite c)) =
      apsnd (after_NUL rest) (push_back_alnums ([], SkipWhite c))"
    using push_back_alnums_after_NUL [of "([], SkipWhite c)" rest] assms
    by (simp add: SkipWhite_range)
  then show ?thesis
    using assms
    by (simp add: GetSymbol_def Let_def SkipWhite_after_NUL PeekChar_after_NUL SkipWhite_range)
qed

lemma GetSign_after_NUL:
  "cursor_in_range (snd sc) \<Longrightarrow>
   GetSign (apsnd (after_NUL rest) sc) = apsnd (after_NUL rest) (GetSign sc)"
  by (simp add: GetSign_def PeekChar_after_NUL push_back_GetChar_after_NUL)

lemma GetSign_range: "cursor_in_range (snd sc) \<Longrightarrow> cursor_in_range (snd (GetSign sc))"
  using GetSign_moved cursor_moved_range by blast

lemma GetFraction_after_NUL:
  "cursor_in_range (snd sc) \<Longrightarrow>
   GetFraction (apsnd (after_NUL rest) sc) = apsnd (after_NUL rest) (GetFraction sc)"
  by (simp add: GetFraction_def PeekChar_after_NUL push_back_GetChar_after_NUL
      push_back_digits_after_NUL push_back_GetChar_range)

lemma GetMantissa_after_NUL:
  assumes "cursor_in_range c"
  shows "GetMantissa (after_NUL rest c) = apsnd (after_NUL rest) (GetMantissa c)"
proof -
  have "GetSign ([], after_NUL rest c) = apsnd (after_NUL rest) (GetSign ([], c))"
    using GetSign_after_NUL [of "([], c)" rest] assms by simp
  moreover have "cursor_in_range (snd (GetSign ([], c)))"
    using GetSign_range [of "([], c)"] assms by simp
  ultimately show ?thesis
    by (simp add: GetMantissa_def push_back_digits_after_NUL GetFraction_after_NUL
        push_back_digits_range)
qed

lemma GetMantissa_range: "cursor_in_range c \<Longrightarrow> cursor_in_range (snd (GetMantissa c))"
  using GetMantissa_moved cursor_moved_range by blast

lemma GetExponent_after_NUL:
  assumes "cursor_in_range (snd sc)"
  shows "GetExponent (apsnd (after_NUL rest) sc) = apsnd (after_NUL rest) (GetExponent sc)"
proof -
  let ?sc1 = "GetSign (push_back_GetChar sc)"
  have r: "cursor_in_range (snd ?sc1)"
    using assms by (simp add: GetSign_range push_back_GetChar_range)
  have "GetSign (push_back_GetChar (apsnd (after_NUL rest) sc)) = apsnd (after_NUL rest) ?sc1"
    using assms by (simp add: push_back_GetChar_after_NUL GetSign_after_NUL push_back_GetChar_range)
  then show ?thesis
    using assms r
    by (simp add: GetExponent_def Let_def PeekChar_after_NUL push_back_digits_after_NUL)
qed

lemma and_then_after_NUL:
  assumes "r' = apsnd (after_NUL rest) r"
    and "\<And>v c. r = (Inr v, c) \<Longrightarrow> k' v (after_NUL rest c) = apsnd (after_NUL rest) (k v c)"
  shows "and_then r' k' = apsnd (after_NUL rest) (and_then r k)"
  using assms by (cases r; cases "fst r") (auto simp: and_then_def)

lemma GetConstant_after_NUL:
  assumes "cursor_in_range c"
  shows "GetConstant F (after_NUL rest c) = apsnd (after_NUL rest) (GetConstant F c)"
  unfolding GetConstant_def
proof (rule and_then_after_NUL)
  show "GetExponent (GetMantissa (SkipWhite (after_NUL rest c))) =
      apsnd (after_NUL rest) (GetExponent (GetMantissa (SkipWhite c)))"
    using assms
    by (simp add: SkipWhite_after_NUL GetMantissa_after_NUL GetExponent_after_NUL
        SkipWhite_range GetMantissa_range)
next
  fix v c1
  show "ConvertConstant F v (after_NUL rest c1) = apsnd (after_NUL rest) (ConvertConstant F v c1)"
    by (simp add: ConvertConstant_def split: sum.splits stod_exception.splits)
qed


lemma and_then_Inr_after_NUL:
  assumes "r' = apsnd (after_NUL rest) r"
  shows "and_then r' (\<lambda>v c. (Inr (f v), c)) =
         apsnd (after_NUL rest) (and_then r (\<lambda>v c. (Inr (f v), c)))"
  using assms by (rule and_then_after_NUL) simp

lemma Parse_range:
  assumes "cursor_in_range c"
  shows "ParseSum F c = (r, c') \<Longrightarrow> cursor_in_range c'"
    and "ParseProduct F c = (r, c') \<Longrightarrow> cursor_in_range c'"
    and "ParseTerm F c = (r, c') \<Longrightarrow> cursor_in_range c'"
    and "GetSymbol c = (r', c') \<Longrightarrow> cursor_in_range c'"
  using assms Parse_moved(1) [of c F] Parse_moved(2) [of c F] Parse_moved(3) [of c F]
    GetSymbol_moved [of c] cursor_moved_range [of c c']
  by auto

lemma Parse_after_NUL:
  "cursor_in_range c \<Longrightarrow> ParseSum F (after_NUL rest c) = apsnd (after_NUL rest) (ParseSum F c)"
  "cursor_in_range c \<Longrightarrow>
     ParseProduct F (after_NUL rest c) = apsnd (after_NUL rest) (ParseProduct F c)"
  "cursor_in_range c \<Longrightarrow> ParseTerm F (after_NUL rest c) = apsnd (after_NUL rest) (ParseTerm F c)"
  "cursor_in_range c \<Longrightarrow>
     ParseIdentifier F (after_NUL rest c) = apsnd (after_NUL rest) (ParseIdentifier F c)"
proof (induction F c and F c and F c and F c
    rule: ParseSum_ParseProduct_ParseTerm_ParseIdentifier.induct)
  case (1 F c)
  note range = \<open>cursor_in_range c\<close>
  show ?case
    unfolding ParseSum.simps [of F c] ParseSum.simps [of F "after_NUL rest c"]
  proof (rule and_then_after_NUL)
    show "ParseProduct F (after_NUL rest c) = apsnd (after_NUL rest) (ParseProduct F c)"
      using "1.IH"(1) range by simp
  next
    fix left c1
    assume r: "ParseProduct F c = (Inr left, c1)"
    then have r1: "cursor_in_range c1"
      using Parse_range(2) [OF range] by blast
    let ?c2 = "SkipWhite c1"
    have r2: "cursor_in_range (snd (GetChar ?c2))"
      using r1 by (simp add: SkipWhite_range GetChar_range)
    have next_product: "ParseProduct F (snd (GetChar (after_NUL rest ?c2))) =
        apsnd (after_NUL rest) (ParseProduct F (snd (GetChar ?c2)))"
      if "PeekChar ?c2 = CHR ''+'' \<or> PeekChar ?c2 = CHR ''-''"
      using that "1.IH"(2) [OF r refl] "1.IH"(3) [OF r refl] r1 r2
      by (auto simp: GetChar_after_NUL SkipWhite_range)
    show "(let c2 = SkipWhite (after_NUL rest c1)
       in if PeekChar c2 = CHR ''+''
          then and_then (ParseProduct F (snd (GetChar c2)))
                 (\<lambda>right c3. (Inr (d_add F left right), c3))
          else if PeekChar c2 = CHR ''-''
          then and_then (ParseProduct F (snd (GetChar c2)))
                 (\<lambda>right c3. (Inr (d_sub F left right), c3))
          else (Inr left, c2)) =
      apsnd (after_NUL rest) (let c2 = SkipWhite c1
       in if PeekChar c2 = CHR ''+''
          then and_then (ParseProduct F (snd (GetChar c2)))
                 (\<lambda>right c3. (Inr (d_add F left right), c3))
          else if PeekChar c2 = CHR ''-''
          then and_then (ParseProduct F (snd (GetChar c2)))
                 (\<lambda>right c3. (Inr (d_sub F left right), c3))
          else (Inr left, c2))"
      using r1 next_product
      by (simp add: Let_def SkipWhite_after_NUL PeekChar_after_NUL SkipWhite_range
          and_then_Inr_after_NUL)
  qed
next
  case (2 F c)
  note range = \<open>cursor_in_range c\<close>
  show ?case
    unfolding ParseProduct.simps [of F c] ParseProduct.simps [of F "after_NUL rest c"]
  proof (rule and_then_after_NUL)
    show "ParseTerm F (after_NUL rest c) = apsnd (after_NUL rest) (ParseTerm F c)"
      using "2.IH"(1) range by simp
  next
    fix left c1
    assume r: "ParseTerm F c = (Inr left, c1)"
    then have r1: "cursor_in_range c1"
      using Parse_range(3) [OF range] by blast
    let ?c2 = "SkipWhite c1"
    have r2: "cursor_in_range (snd (GetChar ?c2))"
      using r1 by (simp add: SkipWhite_range GetChar_range)
    have next_sum: "ParseSum F (snd (GetChar (after_NUL rest ?c2))) =
        apsnd (after_NUL rest) (ParseSum F (snd (GetChar ?c2)))"
      if "PeekChar ?c2 = CHR ''*'' \<or> PeekChar ?c2 = CHR ''/''"
      using that "2.IH"(2) [OF r refl] "2.IH"(3) [OF r refl] r1 r2
      by (auto simp: GetChar_after_NUL SkipWhite_range)
    show "(let c2 = SkipWhite (after_NUL rest c1)
       in if PeekChar c2 = CHR ''*''
          then and_then (ParseSum F (snd (GetChar c2)))
                 (\<lambda>right c3. (Inr (d_mul F left right), c3))
          else if PeekChar c2 = CHR ''/''
          then and_then (ParseSum F (snd (GetChar c2)))
                 (\<lambda>right c3. (Inr (d_div F left right), c3))
          else (Inr left, c2)) =
      apsnd (after_NUL rest) (let c2 = SkipWhite c1
       in if PeekChar c2 = CHR ''*''
          then and_then (ParseSum F (snd (GetChar c2)))
                 (\<lambda>right c3. (Inr (d_mul F left right), c3))
          else if PeekChar c2 = CHR ''/''
          then and_then (ParseSum F (snd (GetChar c2)))
                 (\<lambda>right c3. (Inr (d_div F left right), c3))
          else (Inr left, c2))"
      using r1 next_sum
      by (simp add: Let_def SkipWhite_after_NUL PeekChar_after_NUL SkipWhite_range
          and_then_Inr_after_NUL)
  qed
next
  case (3 F c)
  note range = \<open>cursor_in_range c\<close>
  let ?c1 = "SkipWhite c"
  have r1: "cursor_in_range ?c1" "cursor_in_range (snd (GetChar ?c1))"
    using range by (simp_all add: SkipWhite_range GetChar_range)
  have paren: "and_then (ParseSum F (snd (GetChar (after_NUL rest ?c1)))) (\<lambda>result c2.
                and_then (Consume (CHR '')'') (SkipWhite c2)) (\<lambda>_ c3. (Inr result, c3))) =
      apsnd (after_NUL rest) (and_then (ParseSum F (snd (GetChar ?c1))) (\<lambda>result c2.
                and_then (Consume (CHR '')'') (SkipWhite c2)) (\<lambda>_ c3. (Inr result, c3))))"
    if lparen: "PeekChar ?c1 = CHR ''(''"
  proof (rule and_then_after_NUL)
    show "ParseSum F (snd (GetChar (after_NUL rest ?c1))) =
        apsnd (after_NUL rest) (ParseSum F (snd (GetChar ?c1)))"
      using "3.IH"(1) [OF refl refl lparen] r1 by (simp add: GetChar_after_NUL)
  next
    fix result c2
    assume "ParseSum F (snd (GetChar ?c1)) = (Inr result, c2)"
    then have "cursor_in_range c2"
      using Parse_range(1) [OF r1(2)] by blast
    then show "and_then (Consume (CHR '')'') (SkipWhite (after_NUL rest c2)))
          (\<lambda>_ c3. (Inr result, c3)) =
        apsnd (after_NUL rest)
          (and_then (Consume (CHR '')'') (SkipWhite c2)) (\<lambda>_ c3. (Inr result, c3)))"
      by (intro and_then_after_NUL)
         (simp_all add: SkipWhite_after_NUL Consume_after_NUL SkipWhite_range)
  qed
  have ident: "ParseIdentifier F (after_NUL rest ?c1) =
      apsnd (after_NUL rest) (ParseIdentifier F ?c1)"
    if "PeekChar ?c1 \<noteq> CHR ''(''" "\<not> IsFirstCharOfDouble (PeekChar ?c1)" "isalpha (PeekChar ?c1)"
    using "3.IH"(2) [OF refl refl that] r1 by simp
  show ?case
    unfolding ParseTerm.simps [of F c] ParseTerm.simps [of F "after_NUL rest c"]
    using range r1 paren ident
    by (simp add: Let_def SkipWhite_after_NUL PeekChar_after_NUL GetConstant_after_NUL)
next
  case (4 F c)
  note range = \<open>cursor_in_range c\<close>
  show ?case
    unfolding ParseIdentifier.simps [of F c] ParseIdentifier.simps [of F "after_NUL rest c"]
  proof (rule and_then_after_NUL)
    show "GetSymbol (after_NUL rest c) = apsnd (after_NUL rest) (GetSymbol c)"
      using range by (rule GetSymbol_after_NUL)
  next
    fix symbol c1
    assume r: "GetSymbol c = (Inr symbol, c1)"
    then have r1: "cursor_in_range c1"
      using Parse_range(4) [OF range] by blast
    let ?c2 = "SkipWhite c1"
    have r2: "cursor_in_range ?c2"
      using r1 by (rule SkipWhite_range)
    have call: "and_then (Consume (CHR ''('') (after_NUL rest ?c2)) (\<lambda>_ c3.
                      and_then (ParseSum F c3) (\<lambda>parameter c4.
                        and_then (Consume (CHR '')'') c4) (\<lambda>_ c5. (Inr (f parameter), c5)))) =
        apsnd (after_NUL rest) (and_then (Consume (CHR ''('') ?c2) (\<lambda>_ c3.
                      and_then (ParseSum F c3) (\<lambda>parameter c4.
                        and_then (Consume (CHR '')'') c4) (\<lambda>_ c5. (Inr (f parameter), c5)))))"
      if lparen: "PeekChar ?c2 = CHR ''(''" and f: "m_functions ?c2 symbol = Some f" for f
    proof (rule and_then_after_NUL)
      show "Consume (CHR ''('') (after_NUL rest ?c2) = apsnd (after_NUL rest) (Consume (CHR ''('') ?c2)"
        using r2 by (rule Consume_after_NUL)
    next
      fix u c3
      assume consumed: "Consume (CHR ''('') ?c2 = (Inr u, c3)"
      then have r3: "cursor_in_range c3"
        using Consume_moved [of ?c2 "CHR ''(''"] cursor_moved_range [OF _ r2] by simp
      show "and_then (ParseSum F (after_NUL rest c3)) (\<lambda>parameter c4.
            and_then (Consume (CHR '')'') c4) (\<lambda>_ c5. (Inr (f parameter), c5))) =
          apsnd (after_NUL rest) (and_then (ParseSum F c3) (\<lambda>parameter c4.
            and_then (Consume (CHR '')'') c4) (\<lambda>_ c5. (Inr (f parameter), c5))))"
      proof (rule and_then_after_NUL)
        show "ParseSum F (after_NUL rest c3) = apsnd (after_NUL rest) (ParseSum F c3)"
          using "4.IH" [OF r refl lparen f consumed] r3 by simp
      next
        fix parameter c4
        assume "ParseSum F c3 = (Inr parameter, c4)"
        then have "cursor_in_range c4"
          using Parse_range(1) [OF r3] by blast
        then show "and_then (Consume (CHR '')'') (after_NUL rest c4))
              (\<lambda>_ c5. (Inr (f parameter), c5)) =
            apsnd (after_NUL rest)
              (and_then (Consume (CHR '')'') c4) (\<lambda>_ c5. (Inr (f parameter), c5)))"
          by (intro and_then_after_NUL) (simp_all add: Consume_after_NUL)
      qed
    qed
    show "(let c2 = SkipWhite (after_NUL rest c1)
       in if PeekChar c2 = CHR ''(''
          then (case m_functions c2 symbol of
                  Some f \<Rightarrow>
                    and_then (Consume (CHR ''('') c2) (\<lambda>_ c3.
                      and_then (ParseSum F c3) (\<lambda>parameter c4.
                        and_then (Consume (CHR '')'') c4) (\<lambda>_ c5. (Inr (f parameter), c5))))
                | None \<Rightarrow>
                    (Inl (ParseError (''Unknown function '' @ [CHR 0x22] @ symbol @ [CHR 0x22] @ ''.'')
                                     (m_currentPosition c2)), c2))
          else (case m_constants c2 symbol of
                  Some v \<Rightarrow> (Inr v, c2)
                | None \<Rightarrow>
                    (Inl (ParseError (''Unknown symbol '' @ [CHR 0x22] @ symbol @ [CHR 0x22] @ ''.'')
                                     (m_currentPosition c2)), c2))) =
      apsnd (after_NUL rest) (let c2 = SkipWhite c1
       in if PeekChar c2 = CHR ''(''
          then (case m_functions c2 symbol of
                  Some f \<Rightarrow>
                    and_then (Consume (CHR ''('') c2) (\<lambda>_ c3.
                      and_then (ParseSum F c3) (\<lambda>parameter c4.
                        and_then (Consume (CHR '')'') c4) (\<lambda>_ c5. (Inr (f parameter), c5))))
                | None \<Rightarrow>
                    (Inl (ParseError (''Unknown function '' @ [CHR 0x22] @ symbol @ [CHR 0x22] @ ''.'')
                                     (m_currentPosition c2)), c2))
          else (case m_constants c2 symbol of
                  Some v \<Rightarrow> (Inr v, c2)
                | None \<Rightarrow>
                    (Inl (ParseError (''Unknown symbol '' @ [CHR 0x22] @ symbol @ [CHR 0x22] @ ''.'')
                                     (m_currentPosition c2)), c2)))"
      using r1 r2 call
      by (simp add: Let_def SkipWhite_after_NUL PeekChar_after_NUL split: option.splits)
  qed
qed

lemma Evaluate_after_NUL:
  assumes "cursor_in_range c"
  shows "Evaluate F (after_NUL rest c) = apsnd (after_NUL rest) (Evaluate F c)"
  unfolding Evaluate_def ParseExpression_def
proof (rule and_then_after_NUL)
  show "ParseSum F (after_NUL rest c) = apsnd (after_NUL rest) (ParseSum F c)"
    using assms by (rule Parse_after_NUL(1))
next
  fix expression c1
  assume "ParseSum F c = (Inr expression, c1)"
  then have "cursor_in_range c1"
    using Parse_range(1) [OF assms] by blast
  then show "(let c2 = SkipWhite (after_NUL rest c1)
       in if PeekChar c2 \<noteq> NUL
          then (Inl (ParseError ''Syntax error.'' (m_currentPosition c2)), c2)
          else (Inr expression, c2)) =
      apsnd (after_NUL rest) (let c2 = SkipWhite c1
       in if PeekChar c2 \<noteq> NUL
          then (Inl (ParseError ''Syntax error.'' (m_currentPosition c2)), c2)
          else (Inr expression, c2))"
    by (simp add: Let_def SkipWhite_after_NUL PeekChar_after_NUL SkipWhite_range)
qed

lemma EvaluateSource_after_NUL:
  "EvaluateSource F (pre @ NUL # rest) = EvaluateSource F pre"
proof -
  have "Calc F (pre @ NUL # rest) = after_NUL rest (Calc F pre)"
    by (simp add: Calc_def after_NUL_def)
  moreover have "cursor_in_range (Calc F pre)"
    by (simp add: Calc_def cursor_in_range_def)
  ultimately show ?thesis
    by (simp add: EvaluateSource_def Evaluate_after_NUL)
qed

text \<open>
  C10. \<open>PeekChar\<close> returns NUL at the end of the source and \<open>GetChar\<close> does not advance past
  a NUL, so a NUL character in the source is the end of the input: on an object whose
  source goes on after a NUL, \<open>Evaluate\<close> gives the value or exception, and the position, it
  gives on the object whose source stops before that NUL. A source with a NUL at offset
  \<open>p\<close> evaluates as its first \<open>p\<close> characters do. So \<^verbatim>\<open>1\<close>, NUL, \<^verbatim>\<open>+2+3\<close> evaluates to the
  constant \<^verbatim>\<open>1\<close>, where \<^verbatim>\<open>1+2+3\<close> is a syntax error: what follows the NUL is not
  reported.
\<close>

theorem nul_truncates_source:
  "(m_currentPosition c \<le> length (m_src c) \<longrightarrow>
      Evaluate F (c\<lparr>m_src := m_src c @ NUL # rest\<rparr>) =
        (fst (Evaluate F c), (snd (Evaluate F c))\<lparr>m_src := m_src c @ NUL # rest\<rparr>)) \<and>
   EvaluateSource F (pre @ NUL # rest) = EvaluateSource F pre \<and>
   (p < length src \<and> src ! p = NUL \<longrightarrow> EvaluateSource F src = EvaluateSource F (take p src)) \<and>
   (d_strtod F ''1'' = Some a \<longrightarrow> EvaluateSource F (''1'' @ NUL # ''+2+3'') = Inr a)"
proof (intro conjI impI; (elim conjE)?)
  assume "m_currentPosition c \<le> length (m_src c)"
  then have range: "cursor_in_range c"
    by (simp add: cursor_in_range_def)
  have "cursor_moved c (snd (Evaluate F c))"
    by (rule Evaluate_moved)
  then have "m_src (snd (Evaluate F c)) = m_src c"
    using cursor_moved_in_range \<open>m_currentPosition c \<le> length (m_src c)\<close> by blast
  then have "after_NUL rest (snd (Evaluate F c)) =
      (snd (Evaluate F c))\<lparr>m_src := m_src c @ NUL # rest\<rparr>"
    by (simp add: after_NUL_def)
  with Evaluate_after_NUL [OF range, of F rest]
  show "Evaluate F (c\<lparr>m_src := m_src c @ NUL # rest\<rparr>) =
        (fst (Evaluate F c), (snd (Evaluate F c))\<lparr>m_src := m_src c @ NUL # rest\<rparr>)"
    by (cases "Evaluate F c") (simp add: after_NUL_def)
next
  show "EvaluateSource F (pre @ NUL # rest) = EvaluateSource F pre"
    by (rule EvaluateSource_after_NUL)
next
  assume "p < length src" "src ! p = NUL"
  then have "src = take p src @ NUL # drop (Suc p) src"
    using id_take_nth_drop [of p src] by simp
  then have "EvaluateSource F src = EvaluateSource F (take p src @ NUL # drop (Suc p) src)"
    by simp
  then show "EvaluateSource F src = EvaluateSource F (take p src)"
    by (simp only: EvaluateSource_after_NUL)
next
  assume "d_strtod F ''1'' = Some a"
  then have "EvaluateSource F ''1'' = Inr a"
    by (simp add: run_simps)
  then show "EvaluateSource F (''1'' @ NUL # ''+2+3'') = Inr a"
    by (simp only: EvaluateSource_after_NUL)
qed

theorem nul_truncates_source_witness:
  "EvaluateSource exact_ops [CHR ''2'', CHR ''*'', CHR ''3'', NUL, CHR ''+'', CHR '')''] = Inr 6 \<and>
   EvaluateSource exact_ops ''2*3'' = Inr 6 \<and>
   EvaluateSource exact_ops (''1'' @ NUL # ''+2+3'') = Inr 1 \<and>
   EvaluateSource exact_ops ''1+2+3'' = Inl (ParseError ''Syntax error.'' 3) \<and>
   fst (Evaluate exact_ops ((Calc exact_ops ''2*'')\<lparr>m_src := ''2*'' @ NUL # ''3''\<rparr>)) =
     Inl (ParseError ''Expected a number, symbol or parenthesized expression.'' 2)"
proof -
  let ?src = "[CHR ''2'', CHR ''*'', CHR ''3'', NUL, CHR ''+'', CHR '')'']"
  let ?c = "Calc exact_ops ''2*''"
  have h: "3 < length ?src \<and> ?src ! 3 = NUL" "take 3 ?src = ''2*3''"
    by simp_all
  have l: "d_strtod exact_ops ''1'' = Some 1"
    by (simp add: run_simps exact_simps)
  have e: "EvaluateSource exact_ops ''2*3'' = Inr 6"
    "EvaluateSource exact_ops ''1+2+3'' = Inl (ParseError ''Syntax error.'' 3)"
    by (simp_all add: run_simps exact_simps)
  have c: "m_currentPosition ?c \<le> length (m_src ?c)" "m_src ?c = ''2*''"
    "fst (Evaluate exact_ops ?c) =
       Inl (ParseError ''Expected a number, symbol or parenthesized expression.'' 2)"
    by (simp_all add: run_simps exact_simps)
  have "EvaluateSource exact_ops ?src = EvaluateSource exact_ops (take 3 ?src)"
    using nul_truncates_source [of ?c exact_ops "''3''" "''2*''" 3 ?src 1] h(1) by blast
  moreover have "EvaluateSource exact_ops (''1'' @ NUL # ''+2+3'') = Inr 1"
    using nul_truncates_source [of ?c exact_ops "''3''" "''2*''" 3 ?src 1] l by blast
  moreover have "fst (Evaluate exact_ops (?c\<lparr>m_src := m_src ?c @ NUL # ''3''\<rparr>)) =
      fst (Evaluate exact_ops ?c)"
    using nul_truncates_source [of ?c exact_ops "''3''" "''2*''" 3 ?src 1] c(1) by simp
  ultimately show ?thesis
    using h(2) e c(2,3) by simp
qed

end
